theory Spec2Isabelle
  imports Main "HOL-Library.Sublist" "HOL-Library.Log_Nat"
begin

section \<open>JavaScript strings and exceptions\<close>

text \<open>
  A property read on \<open>null\<close> or \<open>undefined\<close> throws; the thrown value is \<open>TypeError\<close>.
\<close>

datatype js_error = TypeError

text \<open>
  \<open>String.prototype.toLowerCase\<close> belongs to the platform (it follows the Unicode case
  mapping) and is a parameter \<open>lower\<close> of every function that calls it.
  \<open>toLowerCase_ascii\<close> is what it does on ASCII text, where the letters A to Z are mapped
  and every other character is kept; it is used to run the filters on the sample items,
  which are ASCII. \<open>includes_str\<close> is \<open>String.prototype.includes\<close>, the contiguous
  substring test.
\<close>

definition toLowerCase_ascii :: "string \<Rightarrow> string" where
  "toLowerCase_ascii s =
     map (\<lambda>c. case map_of (zip ''ABCDEFGHIJKLMNOPQRSTUVWXYZ'' ''abcdefghijklmnopqrstuvwxyz'') c of
                 Some l \<Rightarrow> l
               | None \<Rightarrow> c) s"

fun includes_str :: "string \<Rightarrow> string \<Rightarrow> bool" where
  "includes_str [] t = (t = [])"
| "includes_str (c # cs) t = (prefix t (c # cs) \<or> includes_str cs t)"

text \<open>
  \<open>Array.prototype.filter\<close> with a callback that may throw: the callback runs on the
  elements in order and the first exception aborts the whole call.
\<close>

fun filter_js :: "('a \<Rightarrow> js_error + bool) \<Rightarrow> 'a list \<Rightarrow> js_error + 'a list" where
  "filter_js p [] = Inr []"
| "filter_js p (x # xs) =
     (case p x of
        Inl e \<Rightarrow> Inl e
      | Inr b \<Rightarrow>
          (case filter_js p xs of
             Inl e \<Rightarrow> Inl e
           | Inr ys \<Rightarrow> Inr (if b then x # ys else ys)))"

definition then_do :: "js_error + 'a \<Rightarrow> ('a \<Rightarrow> js_error + 'b) \<Rightarrow> js_error + 'b" where
  "then_do r f = (case r of Inl e \<Rightarrow> Inl e | Inr v \<Rightarrow> f v)"

text \<open>
  What the awaited \<open>fetch\<close> and \<open>response.json()\<close> of one request deliver: the
  \<open>fetch\<close> promise rejects, or there is a response with an HTTP status whose body is not
  JSON (\<open>json()\<close> rejects), is the JSON value \<open>null\<close>, or is parsed into a payload.
  \<open>response_ok\<close> is \<open>response.ok\<close>, which the handlers modelled here never read.
  \<open>request_failed\<close> is failure as the specification defines it: the request never
  completed, or its status is not 2xx.
\<close>

datatype 'a fetched =
    Fetch_rejected
  | Body_not_json nat
  | Json_null nat
  | Json nat 'a

definition response_ok :: "nat \<Rightarrow> bool" where
  "response_ok status \<longleftrightarrow> 200 \<le> status \<and> status \<le> 299"

fun request_failed :: "'a fetched \<Rightarrow> bool" where
  "request_failed Fetch_rejected = True"
| "request_failed (Body_not_json status) = (\<not> response_ok status)"
| "request_failed (Json_null status) = (\<not> response_ok status)"
| "request_failed (Json status d) = (\<not> response_ok status)"

text \<open>
  A JavaScript string as the sequence of its UTF-16 code units, for the texts whose
  characters matter; \<open>utf16_of\<close> gives the code units of an ASCII literal.
\<close>

type_synonym utf16 = "nat list"

definition utf16_of :: "string \<Rightarrow> utf16" where
  "utf16_of s = map of_char s"

section \<open>Filter engine: crew list and flights list\<close>

text \<open>
  The \<open>CrewMember\<close> interface. A field is \<open>None\<close> when the item received from the
  server carries \<open>null\<close> or no value under that name.
\<close>

record CrewMember =
  Crew_ID :: "string option"
  Name :: "string option"
  Base :: "string option"
  Rank :: "string option"
  Qualification :: "string option"
  Aircraft_Type_License :: "string option"
  Leave_Start :: "string option"
  Leave_End :: "string option"

text \<open>
  \<open>v.toLowerCase().includes(term.toLowerCase())\<close> for a field value \<open>v\<close>; \<open>lower\<close> is
  \<open>String.prototype.toLowerCase\<close>.
\<close>

definition lower_includes :: "(string \<Rightarrow> string) \<Rightarrow> string option \<Rightarrow> string \<Rightarrow> js_error + bool" where
  "lower_includes lower v term =
     (case v of
        None \<Rightarrow> Inl TypeError
      | Some s \<Rightarrow> Inr (includes_str (lower s) (lower term)))"

text \<open>\<open>a || b\<close>: the right operand is evaluated only when the left one is false.\<close>

definition or_else :: "js_error + bool \<Rightarrow> js_error + bool \<Rightarrow> js_error + bool" where
  "or_else a b = (case a of Inl e \<Rightarrow> Inl e | Inr True \<Rightarrow> Inr True | Inr False \<Rightarrow> b)"

definition crew_matches_search :: "(string \<Rightarrow> string) \<Rightarrow> string \<Rightarrow> CrewMember \<Rightarrow> js_error + bool" where
  "crew_matches_search lower searchTerm crew =
     or_else (lower_includes lower (Name crew) searchTerm) (lower_includes lower (Crew_ID crew) searchTerm)"

definition crew_has_license :: "string \<Rightarrow> CrewMember \<Rightarrow> js_error + bool" where
  "crew_has_license selectedAircraft crew =
     (case Aircraft_Type_License crew of
        None \<Rightarrow> Inl TypeError
      | Some s \<Rightarrow> Inr (includes_str s selectedAircraft))"

text \<open>
  \<open>filterCrewMembers\<close> of the crew list with the details modal. The closure reads the
  component state (the arguments) and the result is the list handed to
  \<open>setFilteredCrew\<close>; \<open>Inl\<close> is an exception that leaves the function.
\<close>

definition filterCrewMembers ::
  "(string \<Rightarrow> string) \<Rightarrow> CrewMember list \<Rightarrow> string \<Rightarrow> string \<Rightarrow> string \<Rightarrow> string \<Rightarrow> js_error + CrewMember list" where
  "filterCrewMembers lower crewMembers searchTerm selectedBase selectedRank selectedAircraft =
     then_do (if searchTerm \<noteq> [] then filter_js (crew_matches_search lower searchTerm) crewMembers
              else Inr crewMembers)
       (\<lambda>filtered1.
     then_do (if selectedBase \<noteq> ''all''
              then filter_js (\<lambda>crew. Inr (Base crew = Some selectedBase)) filtered1
              else Inr filtered1)
       (\<lambda>filtered2.
     then_do (if selectedRank \<noteq> ''all''
              then filter_js (\<lambda>crew. Inr (Rank crew = Some selectedRank)) filtered2
              else Inr filtered2)
       (\<lambda>filtered3.
     if selectedAircraft \<noteq> ''all''
     then filter_js (crew_has_license selectedAircraft) filtered3
     else Inr filtered3)))"

text \<open>
  \<open>filterCrewMembers\<close> of \<open>CrewList.tsx\<close>: each categorical filter is also skipped
  when its criterion is the empty string (\<open>baseFilter && baseFilter !== 'all'\<close>).
\<close>

definition filterCrewMembers_CrewList ::
  "(string \<Rightarrow> string) \<Rightarrow> CrewMember list \<Rightarrow> string \<Rightarrow> string \<Rightarrow> string \<Rightarrow> string \<Rightarrow> js_error + CrewMember list" where
  "filterCrewMembers_CrewList lower crewMembers searchTerm baseFilter rankFilter aircraftFilter =
     then_do (if searchTerm \<noteq> [] then filter_js (crew_matches_search lower searchTerm) crewMembers
              else Inr crewMembers)
       (\<lambda>filtered1.
     then_do (if baseFilter \<noteq> [] \<and> baseFilter \<noteq> ''all''
              then filter_js (\<lambda>crew. Inr (Base crew = Some baseFilter)) filtered1
              else Inr filtered1)
       (\<lambda>filtered2.
     then_do (if rankFilter \<noteq> [] \<and> rankFilter \<noteq> ''all''
              then filter_js (\<lambda>crew. Inr (Rank crew = Some rankFilter)) filtered2
              else Inr filtered2)
       (\<lambda>filtered3.
     if aircraftFilter \<noteq> [] \<and> aircraftFilter \<noteq> ''all''
     then filter_js (crew_has_license aircraftFilter) filtered3
     else Inr filtered3)))"

text \<open>The \<open>Flight\<close> interface of \<open>FlightsList.tsx\<close> and its client-side text filter.\<close>

record Flight =
  Date :: "string option"
  Flight_Number :: "string option"
  Origin :: "string option"
  Destination :: "string option"
  Scheduled_Departure_UTC :: "string option"
  Scheduled_Arrival_UTC :: "string option"
  Aircraft_Type :: "string option"
  Duration_HH_MM :: "string option"

definition flight_matches_search :: "(string \<Rightarrow> string) \<Rightarrow> string \<Rightarrow> Flight \<Rightarrow> js_error + bool" where
  "flight_matches_search lower searchTerm flight =
     or_else (lower_includes lower (Flight_Number flight) searchTerm)
       (or_else (lower_includes lower (Origin flight) searchTerm)
                (lower_includes lower (Destination flight) searchTerm))"

definition filterFlights :: "(string \<Rightarrow> string) \<Rightarrow> Flight list \<Rightarrow> string \<Rightarrow> js_error + Flight list" where
  "filterFlights lower flights searchTerm =
     (if searchTerm \<noteq> [] then filter_js (flight_matches_search lower searchTerm) flights
      else Inr flights)"

text \<open>
  Criteria as the specification speaks of them: one value per filtered field, a field
  being unconstrained when the search text is empty or the categorical value is the
  sentinel \<open>all\<close>. \<open>combine\<close> takes every field from the criterion that constrains it.
\<close>

record criteria =
  crit_search :: string
  crit_base :: string
  crit_rank :: string
  crit_aircraft :: string

definition allCriteria :: criteria where
  "allCriteria = \<lparr>crit_search = [], crit_base = ''all'', crit_rank = ''all'',
                   crit_aircraft = ''all''\<rparr>"

definition apply_criteria :: "(string \<Rightarrow> string) \<Rightarrow> CrewMember list \<Rightarrow> criteria \<Rightarrow> js_error + CrewMember list" where
  "apply_criteria lower items c =
     filterCrewMembers lower items (crit_search c) (crit_base c) (crit_rank c) (crit_aircraft c)"

definition distinct_fields :: "criteria \<Rightarrow> criteria \<Rightarrow> bool" where
  "distinct_fields c1 c2 \<longleftrightarrow>
     (crit_search c1 = [] \<or> crit_search c2 = []) \<and>
     (crit_base c1 = ''all'' \<or> crit_base c2 = ''all'') \<and>
     (crit_rank c1 = ''all'' \<or> crit_rank c2 = ''all'') \<and>
     (crit_aircraft c1 = ''all'' \<or> crit_aircraft c2 = ''all'')"

definition combine :: "criteria \<Rightarrow> criteria \<Rightarrow> criteria" where
  "combine c1 c2 =
     \<lparr>crit_search = (if crit_search c1 \<noteq> [] then crit_search c1 else crit_search c2),
      crit_base = (if crit_base c1 \<noteq> ''all'' then crit_base c1 else crit_base c2),
      crit_rank = (if crit_rank c1 \<noteq> ''all'' then crit_rank c1 else crit_rank c2),
      crit_aircraft =
        (if crit_aircraft c1 \<noteq> ''all'' then crit_aircraft c1 else crit_aircraft c2)\<rparr>"

text \<open>
  The items an applied criterion keeps: \<open>keeps3\<close> is the conjunction of the search, base
  and rank tests, \<open>keeps\<close> adds the aircraft licence test.
\<close>

definition keeps3 :: "(string \<Rightarrow> string) \<Rightarrow> string \<Rightarrow> string \<Rightarrow> string \<Rightarrow> CrewMember \<Rightarrow> bool" where
  "keeps3 lower s b r x \<longleftrightarrow>
     (s = [] \<or> crew_matches_search lower s x = Inr True) \<and>
     (b = ''all'' \<or> Base x = Some b) \<and>
     (r = ''all'' \<or> Rank x = Some r)"

definition keeps :: "(string \<Rightarrow> string) \<Rightarrow> string \<Rightarrow> string \<Rightarrow> string \<Rightarrow> string \<Rightarrow> CrewMember \<Rightarrow> bool" where
  "keeps lower s b r a x \<longleftrightarrow>
     keeps3 lower s b r x \<and> (a = ''all'' \<or> crew_has_license a x = Inr True)"

text \<open>Sample items used to run the filters on concrete input.\<close>

definition crew_DEL_Captain :: CrewMember where
  "crew_DEL_Captain = \<lparr>Crew_ID = Some ''CP001'', Name = Some ''Asha Rao'', Base = Some ''DEL'',
     Rank = Some ''Captain'', Qualification = Some ''Senior'',
     Aircraft_Type_License = Some ''A320neo,A321neo'', Leave_Start = None, Leave_End = None\<rparr>"

definition crew_BOM_Captain :: CrewMember where
  "crew_BOM_Captain = \<lparr>Crew_ID = Some ''CP002'', Name = Some ''Vikram Shah'', Base = Some ''BOM'',
     Rank = Some ''Captain'', Qualification = Some ''Line Checked'',
     Aircraft_Type_License = Some ''A320neo'', Leave_Start = None, Leave_End = None\<rparr>"

definition crew_DEL_Purser :: CrewMember where
  "crew_DEL_Purser = \<lparr>Crew_ID = Some ''PU001'', Name = Some ''Meera Nair'', Base = Some ''DEL'',
     Rank = Some ''Purser'', Qualification = Some ''Senior'',
     Aircraft_Type_License = Some ''ATR'', Leave_Start = None, Leave_End = None\<rparr>"

definition crew_without_name :: CrewMember where
  "crew_without_name = \<lparr>Crew_ID = Some ''FO002'', Name = None, Base = Some ''DEL'',
     Rank = Some ''First Officer'', Qualification = Some ''Junior'',
     Aircraft_Type_License = Some ''A320neo'', Leave_Start = None, Leave_End = None\<rparr>"

definition flight_6E101 :: Flight where
  "flight_6E101 = \<lparr>Date = Some ''2023-10-01'', Flight_Number = Some ''6E101'',
     Origin = Some ''DEL'', Destination = Some ''BOM'',
     Scheduled_Departure_UTC = Some ''06:00:00'', Scheduled_Arrival_UTC = Some ''08:10:00'',
     Aircraft_Type = Some ''A320neo'', Duration_HH_MM = Some ''2:10''\<rparr>"

definition crew_without_base :: CrewMember where
  "crew_without_base = \<lparr>Crew_ID = Some ''CP003'', Name = Some ''Rao Kumar'', Base = None,
     Rank = Some ''Captain'', Qualification = Some ''Senior'',
     Aircraft_Type_License = Some ''A320neo'', Leave_Start = None, Leave_End = None\<rparr>"

section \<open>Ordinary objects and \<open>Object.prototype\<close>\<close>

text \<open>
  An object written as a literal (\<open>{}\<close> or \<open>{k: v, ...}\<close>) inherits from
  \<open>Object.prototype\<close>. A property read \<open>obj[key]\<close> that finds no own property continues
  there: the names below are function-valued data properties of \<open>Object.prototype\<close>, and
  \<open>__proto__\<close> is an accessor whose getter returns the prototype of the object (here
  \<open>Object.prototype\<close> itself) and whose setter ignores every value that is neither an
  object nor \<open>null\<close>.
\<close>

definition Object_prototype_functions :: "string list" where
  "Object_prototype_functions =
     [''constructor'', ''__defineGetter__'', ''__defineSetter__'', ''hasOwnProperty'',
      ''__lookupGetter__'', ''__lookupSetter__'', ''isPrototypeOf'', ''propertyIsEnumerable'',
      ''toString'', ''valueOf'', ''toLocaleString'']"

definition Object_prototype_names :: "string list" where
  "Object_prototype_names = Object_prototype_functions @ [''__proto__'']"

section \<open>Disruption chat\<close>

text \<open>
  The values the input state \<open>currentMessage\<close> can hold at run time. The declared type is
  \<open>string\<close>; \<open>handleSuggestedAction\<close> reads a table through a cast, and what it stages
  can be a string, a \<open>String\<close> or \<open>Boolean\<close> wrapper object, a boolean, or the object
  \<open>Object.prototype\<close>. The texts of the chat are sequences of UTF-16 code units, since
  what the user types is arbitrary text.
\<close>

datatype input_value =
    Str utf16
  | StringObject utf16
  | BooleanValue bool
  | BooleanObject bool
  | ObjectPrototype

datatype sender = User | Bot

text \<open>
  \<open>ChatMessage\<close>. \<open>msg_id\<close> and \<open>msg_type\<close> are the fields \<open>id\<close> and \<open>type\<close>;
  \<open>content\<close> is \<open>None\<close> when the value stored is \<open>undefined\<close>; a \<open>String\<close> wrapper
  object stored as content is recorded by the string it wraps, which is what every use of
  the content (rendering, \<open>JSON.stringify\<close>) reads from it. \<open>timestamp\<close> is in
  milliseconds.
\<close>

record ChatMessage =
  msg_id :: string
  msg_type :: sender
  content :: "utf16 option"
  timestamp :: nat
  suggestedActions :: "utf16 list option"

record chat_state =
  messages :: "ChatMessage list"
  currentMessage :: input_value
  isLoading :: bool

text \<open>The body of the POST request; \<open>context\<close> is always the empty object.\<close>

record chat_request =
  message :: utf16

record chat_data =
  response :: "utf16 option"
  suggested_actions :: "utf16 list option"

type_synonym chat_outcome = "chat_data fetched"

text \<open>\<open>Number.prototype.toString\<close> of a non-negative integer: its decimal digits.\<close>

definition digit_char :: "nat \<Rightarrow> char" where
  "digit_char d = ''0123456789'' ! d"

fun decimal :: "nat \<Rightarrow> string" where
  "decimal n = (if n < 10 then [digit_char n] else decimal (n div 10) @ [digit_char (n mod 10)])"

declare decimal.simps [simp del]

text \<open>
  \<open>String.prototype.trim\<close> removes from both ends the code units that ECMAScript calls
  white space or line terminators: tab, line feed, vertical tab, form feed, carriage
  return, space, the no-break space U+00A0, the byte order mark U+FEFF, the line and
  paragraph separators U+2028 and U+2029, and the other space separators of Unicode
  (category Zs): U+1680, U+2000 to U+200A, U+202F, U+205F and U+3000. All of them are
  single code units. A code unit is a number below 65536; \<open>trim\<close> keeps every other
  number.
\<close>

definition isWhiteSpace :: "nat \<Rightarrow> bool" where
  "isWhiteSpace u \<longleftrightarrow>
     u \<in> set [0x0009, 0x000A, 0x000B, 0x000C, 0x000D, 0x0020, 0x00A0, 0x1680,
              0x2000, 0x2001, 0x2002, 0x2003, 0x2004, 0x2005, 0x2006, 0x2007, 0x2008,
              0x2009, 0x200A, 0x2028, 0x2029, 0x202F, 0x205F, 0x3000, 0xFEFF]"

definition trim :: "utf16 \<Rightarrow> utf16" where
  "trim s = rev (dropWhile isWhiteSpace (rev (dropWhile isWhiteSpace s)))"

text \<open>
  \<open>currentMessage.trim()\<close>: defined on strings and \<open>String\<close> objects; on the other
  values \<open>trim\<close> is \<open>undefined\<close> and the call throws.
\<close>

fun call_trim :: "input_value \<Rightarrow> js_error + utf16" where
  "call_trim (Str s) = Inr (trim s)"
| "call_trim (StringObject s) = Inr (trim s)"
| "call_trim _ = Inl TypeError"

definition greeting :: "nat \<Rightarrow> ChatMessage" where
  "greeting now =
     \<lparr>msg_id = ''1'', msg_type = Bot,
      content = Some (utf16_of (''Hello! I'' @ [CHR 0x27] @ ''m your IndiGo Disruption Management Assistant. I can help you handle crew disruptions, find replacements, and ensure DGCA compliance. How can I assist you today?'')),
      timestamp = now,
      suggestedActions =
        Some (map utf16_of [''analyze_disruption'', ''view_roster'', ''check_compliance''])\<rparr>"

definition initial_chat :: "nat \<Rightarrow> chat_state" where
  "initial_chat now = \<lparr>messages = [greeting now], currentMessage = Str [], isLoading = False\<rparr>"

text \<open>
  \<open>handleSendMessage\<close> up to its first \<open>await\<close>: the guard, the optimistic append of the
  user's message, the reset of the input, \<open>isLoading\<close>, and the request sent. The result
  is the new state with the requests issued; \<open>Inl\<close> is an exception thrown before any
  state was set. \<open>now\<close> is \<open>Date.now()\<close>.
\<close>

definition handleSendMessage :: "nat \<Rightarrow> chat_state \<Rightarrow> js_error + chat_state \<times> chat_request list" where
  "handleSendMessage now st =
     then_do (call_trim (currentMessage st))
       (\<lambda>trimmed.
          if trimmed = [] \<or> isLoading st then Inr (st, [])
          else
            (let text = (case currentMessage st of Str s \<Rightarrow> s | StringObject s \<Rightarrow> s | _ \<Rightarrow> []);
                 userMessage = \<lparr>msg_id = decimal now, msg_type = User, content = Some text,
                                timestamp = now, suggestedActions = None\<rparr>
             in Inr (st\<lparr>messages := messages st @ [userMessage],
                        currentMessage := Str [],
                        isLoading := True\<rparr>,
                     [\<lparr>message = text\<rparr>])))"

definition errorMessage :: "nat \<Rightarrow> ChatMessage" where
  "errorMessage now =
     \<lparr>msg_id = decimal (now + 1), msg_type = Bot,
      content = Some (utf16_of (''I apologize, but I'' @ [CHR 0x27] @ ''m having trouble processing your request right now. Please try again later.'')),
      timestamp = now, suggestedActions = None\<rparr>"

definition botMessage :: "nat \<Rightarrow> chat_data \<Rightarrow> ChatMessage" where
  "botMessage now d =
     \<lparr>msg_id = decimal (now + 1), msg_type = Bot, content = response d,
      timestamp = now, suggestedActions = suggested_actions d\<rparr>"

text \<open>
  The rest of \<open>handleSendMessage\<close>, run when the request settles: the \<open>try\<close> block
  throws when \<open>fetch\<close> rejects, when the body is not JSON, and when the body is \<open>null\<close>
  (reading \<open>data.response\<close>); it does not look at the status of the response.
  \<open>finally\<close> clears \<open>isLoading\<close>. Both appends are functional updates, applied to the
  message list as it is at that moment.
\<close>

fun try_block_throws :: "chat_outcome \<Rightarrow> bool" where
  "try_block_throws (Json status d) = False"
| "try_block_throws _ = True"

fun handleSendMessage_settled :: "nat \<Rightarrow> chat_outcome \<Rightarrow> chat_state \<Rightarrow> chat_state" where
  "handleSendMessage_settled now (Json status d) st =
     st\<lparr>messages := messages st @ [botMessage now d], isLoading := False\<rparr>"
| "handleSendMessage_settled now outcome st =
     st\<lparr>messages := messages st @ [errorMessage now], isLoading := False\<rparr>"

text \<open>
  \<open>handleSuggestedAction\<close>. The table is an object literal, so the read
  \<open>actionMessages[action]\<close> finds the three own entries and, for other names, whatever
  \<open>Object.prototype\<close> provides.
\<close>

definition actionMessages :: "(utf16 \<times> utf16) list" where
  "actionMessages =
     [(utf16_of ''analyze_disruption'',
       utf16_of ''Please analyze the current disruption situation and provide recommendations.''),
      (utf16_of ''view_roster'', utf16_of ''Show me the current roster status and any conflicts.''),
      (utf16_of ''check_compliance'',
       utf16_of ''Check DGCA compliance for the current roster assignments.'')]"

datatype staged = Value input_value | Builtin_function utf16

text \<open>\<open>actionMessages[action] || action\<close>: every non-empty string, function and object is truthy.\<close>

definition staged_message :: "utf16 \<Rightarrow> staged" where
  "staged_message action =
     (case map_of actionMessages action of
        Some text \<Rightarrow> (if text \<noteq> [] then Value (Str text) else Value (Str action))
      | None \<Rightarrow>
          if action \<in> set (map utf16_of Object_prototype_functions) then Builtin_function action
          else if action = utf16_of ''__proto__'' then Value ObjectPrototype
          else Value (Str action))"

text \<open>
  A state setter given a function calls it on the previous state, with \<open>this\<close> undefined,
  and stores what it returns. Of the functions of \<open>Object.prototype\<close>, \<open>constructor\<close>
  (that is \<open>Object\<close>) wraps a primitive and returns an object as it is, \<open>toString\<close>
  answers for the undefined receiver, \<open>isPrototypeOf\<close> returns \<open>false\<close> for a primitive
  argument before it looks at the receiver; every other call converts the undefined
  receiver to an object and throws.
\<close>

fun is_object :: "input_value \<Rightarrow> bool" where
  "is_object (Str s) = False"
| "is_object (BooleanValue b) = False"
| "is_object _ = True"

fun ToObject :: "input_value \<Rightarrow> input_value" where
  "ToObject (Str s) = StringObject s"
| "ToObject (BooleanValue b) = BooleanObject b"
| "ToObject v = v"

definition call_updater :: "utf16 \<Rightarrow> input_value \<Rightarrow> js_error + input_value" where
  "call_updater f prev =
     (if f = utf16_of ''constructor'' then Inr (ToObject prev)
      else if f = utf16_of ''toString'' then Inr (Str (utf16_of ''[object Undefined]''))
      else if f = utf16_of ''isPrototypeOf'' then
        (if is_object prev then Inl TypeError else Inr (BooleanValue False))
      else Inl TypeError)"

definition setCurrentMessage :: "staged \<Rightarrow> chat_state \<Rightarrow> js_error + chat_state" where
  "setCurrentMessage m st =
     (case m of
        Value v \<Rightarrow> Inr (st\<lparr>currentMessage := v\<rparr>)
      | Builtin_function f \<Rightarrow>
          then_do (call_updater f (currentMessage st)) (\<lambda>v. Inr (st\<lparr>currentMessage := v\<rparr>)))"

definition handleSuggestedAction :: "utf16 \<Rightarrow> chat_state \<Rightarrow> js_error + chat_state" where
  "handleSuggestedAction action st = setCurrentMessage (staged_message action) st"

definition clearChat :: "nat \<Rightarrow> chat_state \<Rightarrow> chat_state" where
  "clearChat now st = st\<lparr>messages := [greeting now]\<rparr>"

text \<open>
  The chat as a machine: one step per event, returning the new state and the requests the
  step sends. A step that throws leaves the state as it was.
\<close>

datatype chat_event =
    Submit nat
  | Settled nat chat_outcome
  | SelectSuggestedAction utf16
  | Typed utf16
  | Reset nat

fun chat_step :: "chat_event \<Rightarrow> chat_state \<Rightarrow> js_error + chat_state \<times> chat_request list" where
  "chat_step (Submit now) st = handleSendMessage now st"
| "chat_step (Settled now outcome) st = Inr (handleSendMessage_settled now outcome st, [])"
| "chat_step (SelectSuggestedAction action) st =
     then_do (handleSuggestedAction action st) (\<lambda>st'. Inr (st', []))"
| "chat_step (Typed text) st = Inr (st\<lparr>currentMessage := Str text\<rparr>, [])"
| "chat_step (Reset now) st = Inr (clearChat now st, [])"

text \<open>
  Sample chat states: a typed query, and the state after it was submitted. \<open>blank_text\<close>
  is an input of white space only: a space, a no-break space, a line separator, an
  ideographic space and a byte order mark.
\<close>

definition chat_typed :: chat_state where
  "chat_typed = (initial_chat 0)\<lparr>currentMessage := Str (utf16_of ''CP001 called in sick'')\<rparr>"

definition blank_text :: utf16 where
  "blank_text = [0x0020, 0x00A0, 0x2028, 0x3000, 0xFEFF]"

definition chat_sent :: chat_state where
  "chat_sent =
     (initial_chat 0)\<lparr>messages :=
        [greeting 0,
         \<lparr>msg_id = decimal 1700000000000, msg_type = User,
          content = Some (utf16_of ''CP001 called in sick''), timestamp = 1700000000000,
          suggestedActions = None\<rparr>],
      isLoading := True\<rparr>"

section \<open>Roster analytics\<close>

text \<open>
  \<open>FlightData\<close> (the interface \<open>FlightAssignment\<close> of the crew details modal has the same
  fields) and the parts of \<open>RosterResponse\<close> the derivations read. The suffix \<open>_FD\<close> keeps
  the field names apart from those of \<open>Flight\<close>. \<open>Crew_Members\<close>, \<open>roster\<close> and
  \<open>violations\<close> are \<open>None\<close> when the payload carries no value there.
\<close>

record crew_ref =
  Crew_ID_ref :: string
  Crew_Rank :: string

record FlightData =
  Date_FD :: string
  Flight_Number_FD :: string
  Duty_Start :: string
  Duty_End :: string
  Aircraft_Type_FD :: string
  Origin_FD :: string
  Destination_FD :: string
  Duration :: string
  Crew_Members :: "crew_ref list option"

record Violation =
  violation_type :: string
  category :: string
  violation_message :: string

record RosterResponse =
  roster :: "FlightData list option"
  violations :: "Violation list option"

subsection \<open>Violations by category\<close>

text \<open>
  The accumulator of the \<open>reduce\<close> is the object literal \<open>{}\<close>: its own properties, in
  creation order, each holding a number or (after a string concatenation) a string.
\<close>

datatype tally = Num nat | Text string

text \<open>
  \<open>Function.prototype.toString\<close> of a built-in function, and the value of
  \<open>(acc[k] || 0) + 1\<close>. An own number is incremented (for \<open>0\<close> the left operand is
  replaced by \<open>0\<close>, which gives the same); a non-empty own string, an inherited function
  and the object \<open>Object.prototype\<close> are truthy and \<open>+\<close> concatenates their string
  form with \<open>1\<close>; \<open>constructor\<close> is the function \<open>Object\<close>.
\<close>

definition native_source :: "string \<Rightarrow> string" where
  "native_source fname = ''function '' @ fname @ ''() { [native code] }''"

definition increment :: "(string \<times> tally) list \<Rightarrow> string \<Rightarrow> tally" where
  "increment acc k =
     (case map_of acc k of
        Some (Num n) \<Rightarrow> Num (n + 1)
      | Some (Text s) \<Rightarrow> (if s = [] then Num 1 else Text (s @ ''1''))
      | None \<Rightarrow>
          if k = ''constructor'' then Text (native_source ''Object'' @ ''1'')
          else if k \<in> set Object_prototype_functions then Text (native_source k @ ''1'')
          else if k = ''__proto__'' then Text ''[object Object]1''
          else Num 1)"

text \<open>
  The assignment \<open>acc[k] = v\<close>: for \<open>__proto__\<close> the inherited setter runs and ignores
  the value, which is a number or a string; any other key sets the own property, created
  last when it is new.
\<close>

definition assign :: "(string \<times> tally) list \<Rightarrow> string \<Rightarrow> tally \<Rightarrow> (string \<times> tally) list" where
  "assign acc k v =
     (if k = ''__proto__'' then acc
      else if map_of acc k \<noteq> None then map (\<lambda>(k', v'). if k' = k then (k', v) else (k', v')) acc
      else acc @ [(k, v)])"

text \<open>
  \<open>Object.entries\<close>: own properties whose key is an array index (the canonical decimal
  form of an integer below \<open>2^32 - 1\<close>) come first, in ascending numeric order, the others
  follow in creation order.
\<close>

definition digit_value :: "char \<Rightarrow> nat" where
  "digit_value c = length (takeWhile (\<lambda>d. d \<noteq> c) ''0123456789'')"

definition array_index :: "string \<Rightarrow> nat option" where
  "array_index k =
     (if k \<noteq> [] \<and> list_all (\<lambda>c. c \<in> set ''0123456789'') k
      then (let n = foldl (\<lambda>a c. 10 * a + digit_value c) 0 k
            in if decimal n = k \<and> n < 4294967295 then Some n else None)
      else None)"

definition is_array_index :: "string \<Rightarrow> bool" where
  "is_array_index k \<longleftrightarrow> array_index k \<noteq> None"

definition Object_entries :: "(string \<times> tally) list \<Rightarrow> (string \<times> tally) list" where
  "Object_entries obj =
     sort_key (\<lambda>(k, v). case array_index k of Some n \<Rightarrow> n | None \<Rightarrow> 0)
       (filter (\<lambda>(k, v). is_array_index k) obj)
     @ filter (\<lambda>(k, v). \<not> is_array_index k) obj"

text \<open>
  \<open>getViolationsByCategory\<close>, reading the state \<open>rosterData\<close>. An emitted object
  \<open>{name, value}\<close> is the pair of its two fields.
\<close>

definition getViolationsByCategory :: "RosterResponse option \<Rightarrow> (string \<times> tally) list" where
  "getViolationsByCategory rosterData =
     (case rosterData of
        None \<Rightarrow> []
      | Some data \<Rightarrow>
          (case violations data of
             None \<Rightarrow> []
           | Some vs \<Rightarrow>
               Object_entries
                 (foldl (\<lambda>acc violation.
                           assign acc (category violation) (increment acc (category violation)))
                    [] vs)))"

text \<open>The count an emitted value stands for: a number counts, a string is no count.\<close>

fun count_of :: "tally \<Rightarrow> nat" where
  "count_of (Num n) = n"
| "count_of (Text s) = 0"

definition sum_of_counts :: "(string \<times> tally) list \<Rightarrow> nat" where
  "sum_of_counts entries = sum_list (map (\<lambda>(k, v). count_of v) entries)"

definition violation_of :: "string \<Rightarrow> Violation" where
  "violation_of c = \<lparr>violation_type = ''Rule'', category = c, violation_message = ''Violated''\<rparr>"

text \<open>Every value of an object is a number.\<close>

definition all_counts :: "(string \<times> tally) list \<Rightarrow> bool" where
  "all_counts acc \<longleftrightarrow> list_all (\<lambda>(k, v). case v of Num n \<Rightarrow> True | Text s \<Rightarrow> False) acc"

section \<open>Crew details modal\<close>

text \<open>
  The state of \<open>CrewDetailsModal\<close> and the payloads of its five requests. A payload field
  is \<open>None\<close> when the JSON object has no value there (an error object, for instance).
  \<open>violation_count\<close> and the ids are numbers; \<open>violations_shown\<close> is the state
  \<open>violations\<close>, \<open>preferences_json\<close> the property \<open>preferences\<close> of the response.
\<close>

record CrewSchedule =
  roster_id :: int
  start_date :: string
  end_date :: string
  violation_count :: int

record CrewPreference =
  pref_type :: string
  detail :: string
  priority :: string

record ViolationDetail =
  vd_type :: string
  description :: string
  severity :: string
  flight_number :: "string option"
  vd_date :: "string option"

record RosterHistoryItem =
  item_id :: int
  created_at :: string
  item_start_date :: string
  item_end_date :: string
  item_violation_count :: int

record crew_response =
  crew_members :: "CrewMember list option"

record schedule_response =
  schedules :: "CrewSchedule list option"

record preferences_response =
  preferences_json :: "CrewPreference list option"

record history_response =
  rosters :: "RosterHistoryItem list option"

record roster_detail =
  roster_data :: "FlightData list option"

record modal_state =
  crewDetails :: "CrewMember option"
  schedule :: "CrewSchedule list"
  preferences :: "CrewPreference list"
  flightAssignments :: "FlightData list"
  violations_shown :: "ViolationDetail list"
  latestRoster :: "roster_detail option"
  loading :: bool

definition initial_modal :: modal_state where
  "initial_modal = \<lparr>crewDetails = None, schedule = [], preferences = [], flightAssignments = [],
                     violations_shown = [], latestRoster = None, loading = False\<rparr>"

text \<open>
  One call of \<open>fetchCrewDetails\<close> is suspended at each \<open>await\<close>. It keeps what its closure
  captured (the \<open>crewId\<close> and the \<open>schedule\<close> state of the render that started it) and the
  request it waits for; a \<open>fetch\<close> and the \<open>json()\<close> after it are one stage, since the
  function does nothing between them.
\<close>

datatype stage =
    AwaitCrew
  | AwaitSchedule
  | AwaitPreferences
  | AwaitHistory
  | AwaitDetail int
  | Done

record invocation =
  inv_crewId :: string
  inv_schedule :: "CrewSchedule list"
  inv_stage :: stage

datatype response =
    CrewR "crew_response fetched"
  | ScheduleR "schedule_response fetched"
  | PreferencesR "preferences_response fetched"
  | HistoryR "history_response fetched"
  | DetailR "roster_detail fetched"

text \<open>
  The mock violations. \<open>picks j\<close> stands for the \<open>j\<close>-th value of \<open>Math.random()\<close>: the
  index \<open>Math.floor(Math.random() * n)\<close> is \<open>picks j mod n\<close>, and reading index 0 of an
  empty array gives \<open>undefined\<close>.
\<close>

definition pick_flight :: "(nat \<Rightarrow> nat) \<Rightarrow> nat \<Rightarrow> FlightData list \<Rightarrow> FlightData option" where
  "pick_flight picks j crewFlights =
     (if crewFlights = [] then None else Some (crewFlights ! (picks j mod length crewFlights)))"

definition mockViolation :: "(nat \<Rightarrow> nat) \<Rightarrow> FlightData list \<Rightarrow> nat \<Rightarrow> ViolationDetail" where
  "mockViolation picks crewFlights i =
     \<lparr>vd_type = [''Rest Period'', ''Duty Time'', ''Flight Time'', ''Minimum Equipment''] ! (i mod 4),
      description =
        [''Insufficient rest period between duties (minimum 12 hours required)'',
         ''Exceeded maximum duty time limit (14 hours maximum)'',
         ''Flight time exceeds monthly limit'',
         ''Missing required qualification for aircraft type''] ! (i mod 4),
      severity = [''High'', ''Medium'', ''Low''] ! (i mod 3),
      flight_number = map_option Flight_Number_FD (pick_flight picks (2 * i) crewFlights),
      vd_date = map_option Date_FD (pick_flight picks (2 * i + 1) crewFlights)\<rparr>"

definition mockViolations ::
  "(nat \<Rightarrow> nat) \<Rightarrow> CrewSchedule list \<Rightarrow> FlightData list \<Rightarrow> ViolationDetail list" where
  "mockViolations picks sched crewFlights =
     (case sched of
        [] \<Rightarrow> []
      | s # rest \<Rightarrow>
          if violation_count s > 0
          then map (mockViolation picks crewFlights) [0 ..< nat (violation_count s)]
          else [])"

text \<open>\<open>flight.Crew_Members.some(member => member.Crew_ID === crewId)\<close>.\<close>

definition assigned_to :: "string \<Rightarrow> FlightData \<Rightarrow> js_error + bool" where
  "assigned_to crewId flight =
     (case Crew_Members flight of
        None \<Rightarrow> Inl TypeError
      | Some members \<Rightarrow> Inr (list_ex (\<lambda>member. Crew_ID_ref member = crewId) members))"

text \<open>
  The start of \<open>fetchCrewDetails\<close>, run by the effect when \<open>crewId\<close> or \<open>isOpen\<close>
  changed: nothing without a crew id, else \<open>loading\<close> is set and the crew list is
  requested.
\<close>

definition fetchCrewDetails_start ::
  "string option \<Rightarrow> modal_state \<Rightarrow> modal_state \<times> invocation option" where
  "fetchCrewDetails_start crewId st =
     (case crewId of
        None \<Rightarrow> (st, None)
      | Some c \<Rightarrow>
          if c = [] then (st, None)
          else (st\<lparr>loading := True\<rparr>,
                Some \<lparr>inv_crewId = c, inv_schedule = schedule st, inv_stage = AwaitCrew\<rparr>))"

text \<open>
  The continuation after each stage. \<open>finish\<close> is the \<open>finally\<close> block. A failure of
  the crew list request reaches the outer \<open>catch\<close> and ends the call; each of the three
  inner \<open>try\<close> blocks catches its own failure, empties its own state and goes on.
\<close>

definition finish :: "invocation \<Rightarrow> modal_state \<Rightarrow> invocation \<times> modal_state" where
  "finish call st = (call\<lparr>inv_stage := Done\<rparr>, st\<lparr>loading := False\<rparr>)"

definition after_crew :: "crew_response fetched \<Rightarrow> invocation \<Rightarrow> modal_state \<Rightarrow> invocation \<times> modal_state" where
  "after_crew r call st =
     (case r of
        Json status crewData \<Rightarrow>
          (case crew_members crewData of
             None \<Rightarrow> finish call st
           | Some members \<Rightarrow>
               (call\<lparr>inv_stage := AwaitSchedule\<rparr>,
                (case find (\<lambda>c. Crew_ID c = Some (inv_crewId call)) members of
                   None \<Rightarrow> st
                 | Some crew \<Rightarrow> st\<lparr>crewDetails := Some crew\<rparr>)))
      | _ \<Rightarrow> finish call st)"

definition after_schedule ::
  "schedule_response fetched \<Rightarrow> invocation \<Rightarrow> modal_state \<Rightarrow> invocation \<times> modal_state" where
  "after_schedule r call st =
     (call\<lparr>inv_stage := AwaitPreferences\<rparr>,
      (case r of
         Json status scheduleData \<Rightarrow>
           st\<lparr>schedule := (case schedules scheduleData of Some l \<Rightarrow> l | None \<Rightarrow> [])\<rparr>
       | _ \<Rightarrow> st\<lparr>schedule := []\<rparr>))"

definition after_preferences ::
  "preferences_response fetched \<Rightarrow> invocation \<Rightarrow> modal_state \<Rightarrow> invocation \<times> modal_state" where
  "after_preferences r call st =
     (call\<lparr>inv_stage := AwaitHistory\<rparr>,
      (case r of
         Json status preferencesData \<Rightarrow>
           st\<lparr>preferences :=
                (case preferences_json preferencesData of Some l \<Rightarrow> l | None \<Rightarrow> [])\<rparr>
       | _ \<Rightarrow> st\<lparr>preferences := []\<rparr>))"

definition flights_failed :: "modal_state \<Rightarrow> modal_state" where
  "flights_failed st = st\<lparr>flightAssignments := [], violations_shown := []\<rparr>"

definition after_history ::
  "history_response fetched \<Rightarrow> invocation \<Rightarrow> modal_state \<Rightarrow> invocation \<times> modal_state" where
  "after_history r call st =
     (case r of
        Json status rostersData \<Rightarrow>
          (case rosters rostersData of
             Some (latest # older) \<Rightarrow> (call\<lparr>inv_stage := AwaitDetail (item_id latest)\<rparr>, st)
           | _ \<Rightarrow> finish call st)
      | _ \<Rightarrow> finish call (flights_failed st))"

definition after_detail ::
  "(nat \<Rightarrow> nat) \<Rightarrow> roster_detail fetched \<Rightarrow> invocation \<Rightarrow> modal_state \<Rightarrow> invocation \<times> modal_state" where
  "after_detail picks r call st =
     (case r of
        Json status rosterData \<Rightarrow>
          (let st1 = st\<lparr>latestRoster := Some rosterData\<rparr> in
           case (case roster_data rosterData of
                   None \<Rightarrow> Inr []
                 | Some fl \<Rightarrow> filter_js (assigned_to (inv_crewId call)) fl) of
             Inl e \<Rightarrow> finish call (flights_failed st1)
           | Inr crewFlights \<Rightarrow>
               finish call
                 (st1\<lparr>flightAssignments := crewFlights,
                      violations_shown := mockViolations picks (inv_schedule call) crewFlights\<rparr>))
      | Json_null status \<Rightarrow> finish call (flights_failed (st\<lparr>latestRoster := None\<rparr>))
      | _ \<Rightarrow> finish call (flights_failed st))"

text \<open>
  \<open>resume\<close> continues a suspended call with the response to the request it waits for;
  a response to another request is not for this call.
\<close>

fun resume ::
  "(nat \<Rightarrow> nat) \<Rightarrow> response \<Rightarrow> invocation \<Rightarrow> modal_state \<Rightarrow> (invocation \<times> modal_state) option" where
  "resume picks (CrewR r) call st =
     (if inv_stage call = AwaitCrew then Some (after_crew r call st) else None)"
| "resume picks (ScheduleR r) call st =
     (if inv_stage call = AwaitSchedule then Some (after_schedule r call st) else None)"
| "resume picks (PreferencesR r) call st =
     (if inv_stage call = AwaitPreferences then Some (after_preferences r call st) else None)"
| "resume picks (HistoryR r) call st =
     (if inv_stage call = AwaitHistory then Some (after_history r call st) else None)"
| "resume picks (DetailR r) call st =
     (case inv_stage call of
        AwaitDetail rosterId \<Rightarrow> Some (after_detail picks r call st)
      | _ \<Rightarrow> None)"

text \<open>
  The backend as the modal sees it: the reply to each request. \<open>fetchCrewDetails\<close> is one
  call run from start to end against it, with no other call in between.
\<close>

record backend =
  crew_list :: "crew_response fetched"
  schedule_of :: "string \<Rightarrow> schedule_response fetched"
  preferences_of :: "string \<Rightarrow> preferences_response fetched"
  history :: "history_response fetched"
  roster_by_id :: "int \<Rightarrow> roster_detail fetched"
  random_picks :: "nat \<Rightarrow> nat"

definition reply :: "backend \<Rightarrow> invocation \<Rightarrow> response option" where
  "reply b call =
     (case inv_stage call of
        AwaitCrew \<Rightarrow> Some (CrewR (crew_list b))
      | AwaitSchedule \<Rightarrow> Some (ScheduleR (schedule_of b (inv_crewId call)))
      | AwaitPreferences \<Rightarrow> Some (PreferencesR (preferences_of b (inv_crewId call)))
      | AwaitHistory \<Rightarrow> Some (HistoryR (history b))
      | AwaitDetail rosterId \<Rightarrow> Some (DetailR (roster_by_id b rosterId))
      | Done \<Rightarrow> None)"

fun run_call :: "nat \<Rightarrow> backend \<Rightarrow> invocation \<Rightarrow> modal_state \<Rightarrow> modal_state" where
  "run_call 0 b call st = st"
| "run_call (Suc n) b call st =
     (case reply b call of
        None \<Rightarrow> st
      | Some r \<Rightarrow>
          (case resume (random_picks b) r call st of
             None \<Rightarrow> st
           | Some (call', st') \<Rightarrow> run_call n b call' st'))"

definition fetchCrewDetails :: "backend \<Rightarrow> string option \<Rightarrow> modal_state \<Rightarrow> modal_state" where
  "fetchCrewDetails b crewId st =
     (case fetchCrewDetails_start crewId st of
        (st', None) \<Rightarrow> st'
      | (st', Some call) \<Rightarrow> run_call 5 b call st')"

text \<open>
  The modal with several calls in flight. The parent changes the prop \<open>crewId\<close>
  (\<open>Select\<close>), which runs the effect and starts a call; \<open>Resolve i r\<close> settles the request
  the \<open>i\<close>-th call waits for. Nothing in \<open>fetchCrewDetails\<close> compares its \<open>crewId\<close> with
  the current prop.
\<close>

record modal_system =
  selected :: "string option"
  shown :: modal_state
  calls :: "invocation list"

datatype modal_event = Select string | Resolve nat response

definition modal_step :: "(nat \<Rightarrow> nat) \<Rightarrow> modal_event \<Rightarrow> modal_system \<Rightarrow> modal_system" where
  "modal_step picks ev s =
     (case ev of
        Select c \<Rightarrow>
          (case fetchCrewDetails_start (Some c) (shown s) of
             (st', None) \<Rightarrow> s\<lparr>selected := Some c, shown := st'\<rparr>
           | (st', Some call) \<Rightarrow> s\<lparr>selected := Some c, shown := st', calls := calls s @ [call]\<rparr>)
      | Resolve i r \<Rightarrow>
          (if i < length (calls s)
           then (case resume picks r (calls s ! i) (shown s) of
                   None \<Rightarrow> s
                 | Some (call', st') \<Rightarrow> s\<lparr>shown := st', calls := (calls s)[i := call']\<rparr>)
           else s))"

definition modal_run :: "(nat \<Rightarrow> nat) \<Rightarrow> modal_event list \<Rightarrow> modal_system \<Rightarrow> modal_system" where
  "modal_run picks evs s = foldl (\<lambda>s ev. modal_step picks ev s) s evs"

text \<open>
  What the code leaves in each sub-section when a call has ended, as a function of the
  reply to its own request. The schedule and the preferences hold the list of the payload,
  and the empty list when the payload has none or the request threw. The flight
  assignments hold the crew member's flights of the latest roster, the empty list when a
  request of the flight block threw, and the list shown before the call when the history
  reply is JSON without rosters: nothing is set then. The definitions after them are
  sample data: roster flights, schedules, preferences and a backend whose schedule
  endpoint is down.
\<close>

definition section_schedule :: "schedule_response fetched \<Rightarrow> CrewSchedule list" where
  "section_schedule r =
     (case r of
        Json status d \<Rightarrow> (case schedules d of Some l \<Rightarrow> l | None \<Rightarrow> [])
      | _ \<Rightarrow> [])"

definition section_preferences :: "preferences_response fetched \<Rightarrow> CrewPreference list" where
  "section_preferences r =
     (case r of
        Json status d \<Rightarrow> (case preferences_json d of Some l \<Rightarrow> l | None \<Rightarrow> [])
      | _ \<Rightarrow> [])"

definition flights_of_roster :: "string \<Rightarrow> roster_detail fetched \<Rightarrow> FlightData list" where
  "flights_of_roster crewId r =
     (case r of
        Json status d \<Rightarrow>
          (case roster_data d of
             None \<Rightarrow> []
           | Some fl \<Rightarrow> (case filter_js (assigned_to crewId) fl of Inl e \<Rightarrow> [] | Inr fs \<Rightarrow> fs))
      | _ \<Rightarrow> [])"

definition section_flights ::
  "backend \<Rightarrow> string \<Rightarrow> FlightData list \<Rightarrow> FlightData list" where
  "section_flights b crewId before =
     (case history b of
        Json status h \<Rightarrow>
          (case rosters h of
             Some (latest # older) \<Rightarrow> flights_of_roster crewId (roster_by_id b (item_id latest))
           | _ \<Rightarrow> before)
      | _ \<Rightarrow> [])"

definition roster_6E101 :: FlightData where
  "roster_6E101 = \<lparr>Date_FD = ''2023-10-01'', Flight_Number_FD = ''6E101'',
     Duty_Start = ''2023-10-01T05:00:00Z'', Duty_End = ''2023-10-01T08:40:00Z'',
     Aircraft_Type_FD = ''A320neo'', Origin_FD = ''DEL'', Destination_FD = ''BOM'',
     Duration = ''2:10'',
     Crew_Members = Some [\<lparr>Crew_ID_ref = ''CP001'', Crew_Rank = ''Captain''\<rparr>]\<rparr>"

definition roster_6E202 :: FlightData where
  "roster_6E202 = \<lparr>Date_FD = ''2023-10-01'', Flight_Number_FD = ''6E202'',
     Duty_Start = ''2023-10-01T09:00:00Z'', Duty_End = ''2023-10-01T12:10:00Z'',
     Aircraft_Type_FD = ''ATR'', Origin_FD = ''BOM'', Destination_FD = ''GOI'',
     Duration = ''1:40'',
     Crew_Members = Some [\<lparr>Crew_ID_ref = ''PU001'', Crew_Rank = ''Purser''\<rparr>]\<rparr>"

definition schedule_CP001 :: CrewSchedule where
  "schedule_CP001 = \<lparr>roster_id = 7, start_date = ''2023-10-01'', end_date = ''2023-10-07'',
                      violation_count = 0\<rparr>"

definition schedule_PU001 :: CrewSchedule where
  "schedule_PU001 = \<lparr>roster_id = 7, start_date = ''2023-10-02'', end_date = ''2023-10-05'',
                      violation_count = 0\<rparr>"

definition preference_CP001 :: CrewPreference where
  "preference_CP001 = \<lparr>pref_type = ''Day_Off'', detail = ''Sunday'', priority = ''High''\<rparr>"

definition preference_PU001 :: CrewPreference where
  "preference_PU001 = \<lparr>pref_type = ''Base'', detail = ''DEL'', priority = ''Low''\<rparr>"

definition history_one :: "history_response fetched" where
  "history_one = Json 200 \<lparr>rosters = Some [\<lparr>item_id = 7, created_at = ''2023-09-30'',
     item_start_date = ''2023-10-01'', item_end_date = ''2023-10-07'',
     item_violation_count = 0\<rparr>]\<rparr>"

definition backend_schedule_down :: backend where
  "backend_schedule_down =
     \<lparr>crew_list = Json 200 \<lparr>crew_members = Some [crew_BOM_Captain, crew_DEL_Captain]\<rparr>,
      schedule_of = (\<lambda>c. Body_not_json 500),
      preferences_of = (\<lambda>c. Json 200 \<lparr>preferences_json = Some [preference_CP001]\<rparr>),
      history = history_one,
      roster_by_id = (\<lambda>i. Json 200 \<lparr>roster_data = Some [roster_6E101, roster_6E202]\<rparr>),
      random_picks = (\<lambda>j. 0)\<rparr>"

text \<open>
  A backend that answers every request, and a trace of the modal with two calls in flight:
  \<open>CP001\<close> is selected, then \<open>PU001\<close>; the requests of the second call resolve
  before those of the first. \<open>newer_loaded\<close> is the system after the second call ended.
\<close>

definition backend_up :: backend where
  "backend_up =
     \<lparr>crew_list = Json 200 \<lparr>crew_members = Some [crew_DEL_Captain, crew_DEL_Purser]\<rparr>,
      schedule_of = (\<lambda>c. Json 200 \<lparr>schedules =
         Some (if c = ''CP001'' then [schedule_CP001] else [schedule_PU001])\<rparr>),
      preferences_of = (\<lambda>c. Json 200 \<lparr>preferences_json =
         Some (if c = ''CP001'' then [preference_CP001] else [preference_PU001])\<rparr>),
      history = history_one,
      roster_by_id = (\<lambda>i. Json 200 \<lparr>roster_data = Some [roster_6E101, roster_6E202]\<rparr>),
      random_picks = (\<lambda>j. 0)\<rparr>"

definition initial_system :: modal_system where
  "initial_system = \<lparr>selected = None, shown = initial_modal, calls = []\<rparr>"

definition stale_trace :: "modal_event list" where
  "stale_trace =
     [Select ''CP001'', Select ''PU001'',
      Resolve 1 (CrewR (crew_list backend_up)),
      Resolve 1 (ScheduleR (schedule_of backend_up ''PU001'')),
      Resolve 1 (PreferencesR (preferences_of backend_up ''PU001'')),
      Resolve 1 (HistoryR (history backend_up)),
      Resolve 1 (DetailR (roster_by_id backend_up 7)),
      Resolve 0 (CrewR (crew_list backend_up)),
      Resolve 0 (ScheduleR (schedule_of backend_up ''CP001'')),
      Resolve 0 (PreferencesR (preferences_of backend_up ''CP001'')),
      Resolve 0 (HistoryR (history backend_up)),
      Resolve 0 (DetailR (roster_by_id backend_up 7))]"

definition newer_loaded :: modal_system where
  "newer_loaded =
     \<lparr>selected = Some ''PU001'',
      shown = \<lparr>crewDetails = Some crew_DEL_Purser, schedule = [schedule_PU001],
               preferences = [preference_PU001], flightAssignments = [roster_6E202],
               violations_shown = [],
               latestRoster = Some \<lparr>roster_data = Some [roster_6E101, roster_6E202]\<rparr>,
               loading = False\<rparr>,
      calls = [\<lparr>inv_crewId = ''CP001'', inv_schedule = [], inv_stage = AwaitCrew\<rparr>,
               \<lparr>inv_crewId = ''PU001'', inv_schedule = [], inv_stage = Done\<rparr>]\<rparr>"

text \<open>
  The same backend when the roster history endpoint answers 500 with an error object as
  JSON body, which has no \<open>rosters\<close> field.
\<close>

definition backend_history_down :: backend where
  "backend_history_down = backend_up\<lparr>history := Json 500 \<lparr>rosters = None\<rparr>\<rparr>"

section \<open>Flights list: the fetch driven by the filter parameters\<close>

text \<open>
  The state of \<open>FlightsList\<close> (the suffix \<open>_view\<close> keeps its names apart) and
  \<open>fetchFlights\<close>: the start reads the current parameters into the request, the
  continuation stores the reply. The request is what the URL carries.
\<close>

record flights_view =
  flights :: "Flight list"
  loading_view :: bool
  originFilter :: string
  destinationFilter :: string
  aircraftFilter_view :: string
  dateFilter :: string
  currentPage :: nat
  totalFlights :: nat

record flights_request =
  limit :: nat
  offset :: nat
  origin_param :: "string option"
  destination_param :: "string option"
  aircraft_type_param :: "string option"
  date_param :: "string option"

record flights_response =
  flights_json :: "Flight list option"
  total :: "nat option"

definition filter_param :: "string \<Rightarrow> string option" where
  "filter_param v = (if v \<noteq> [] \<and> v \<noteq> ''all'' then Some v else None)"

definition fetchFlights_start :: "flights_view \<Rightarrow> flights_view \<times> flights_request" where
  "fetchFlights_start v =
     (v\<lparr>loading_view := True\<rparr>,
      \<lparr>limit = 20, offset = (currentPage v - 1) * 20,
       origin_param = filter_param (originFilter v),
       destination_param = filter_param (destinationFilter v),
       aircraft_type_param = filter_param (aircraftFilter_view v),
       date_param = (if dateFilter v \<noteq> [] then Some (dateFilter v) else None)\<rparr>)"

definition fetchFlights_settled :: "flights_response fetched \<Rightarrow> flights_view \<Rightarrow> flights_view" where
  "fetchFlights_settled r v =
     (case r of
        Json status d \<Rightarrow>
          v\<lparr>flights := (case flights_json d of Some l \<Rightarrow> l | None \<Rightarrow> []),
            totalFlights := (case total d of Some n \<Rightarrow> n | None \<Rightarrow> 0),
            loading_view := False\<rparr>
      | _ \<Rightarrow> v\<lparr>loading_view := False\<rparr>)"

section \<open>JavaScript numbers\<close>

text \<open>
  A JavaScript number is an IEEE 754 binary64 value. A finite one is modelled by the
  rational it denotes, and every arithmetic operation returns the exact result rounded to
  the nearest value with a 53-bit significand, ties to the even significand (\<open>fl\<close>).
  \<open>floor_log2 x\<close> is the binary exponent of a positive \<open>x\<close>, \<open>quantum x\<close> the spacing
  of the representable values around \<open>x\<close>. The exponent range is not bounded in the model:
  time values are at most \<open>8.64e15\<close> in magnitude, so every number computed below lies
  between \<open>1e-7\<close> and \<open>2e16\<close> in magnitude or is zero, far inside the normal range of
  binary64. The sign of a zero is not kept.
\<close>

definition round_to_even :: "rat \<Rightarrow> int" where
  "round_to_even x =
     (let f = \<lfloor>x\<rfloor>; r = x - of_int f
      in if r < 1 / 2 then f else if 1 / 2 < r then f + 1 else if even f then f else f + 1)"

definition floor_log2 :: "rat \<Rightarrow> int" where
  "floor_log2 x =
     (case quotient_of x of
        (a, b) \<Rightarrow> (let e = bitlen a - bitlen b in if 2 powi e \<le> x then e else e - 1))"

definition quantum :: "rat \<Rightarrow> rat" where
  "quantum x = 2 powi (floor_log2 \<bar>x\<bar> - 52)"

definition fl :: "rat \<Rightarrow> rat" where
  "fl x = (if x = 0 then 0 else of_int (round_to_even (x / quantum x)) * quantum x)"

text \<open>The values a binary64 number can take, exponent range apart.\<close>

definition representable :: "rat \<Rightarrow> bool" where
  "representable g \<longleftrightarrow>
     g = 0 \<or> (\<exists>m q :: int. 2 ^ 52 \<le> \<bar>m\<bar> \<and> \<bar>m\<bar> < 2 ^ 53 \<and> g = of_int m * 2 powi q)"

text \<open>
  Numbers as the code computes with them: \<open>NaN\<close> or a finite value. \<open>js_sub\<close> is the
  operator \<open>-\<close>; \<open>js_div\<close> and \<open>js_mul\<close> divide and multiply by a literal, which is
  not zero; \<open>Math_round\<close> is exact and rounds a half upwards.
\<close>

datatype js_number = NaN | Finite rat

definition js_sub :: "js_number \<Rightarrow> js_number \<Rightarrow> js_number" where
  "js_sub a b = (case a of NaN \<Rightarrow> NaN | Finite x \<Rightarrow> (case b of NaN \<Rightarrow> NaN | Finite y \<Rightarrow> Finite (fl (x - y))))"

definition js_div :: "js_number \<Rightarrow> rat \<Rightarrow> js_number" where
  "js_div a c = (case a of NaN \<Rightarrow> NaN | Finite x \<Rightarrow> Finite (fl (x / c)))"

definition js_mul :: "js_number \<Rightarrow> rat \<Rightarrow> js_number" where
  "js_mul a c = (case a of NaN \<Rightarrow> NaN | Finite x \<Rightarrow> Finite (fl (x * c)))"

definition Math_round :: "js_number \<Rightarrow> js_number" where
  "Math_round a = (case a of NaN \<Rightarrow> NaN | Finite x \<Rightarrow> Finite (of_int \<lfloor>x + 1 / 2\<rfloor>))"

text \<open>
  \<open>new Date(s).getTime()\<close>. The parser of date strings belongs to the platform and is a
  parameter: it returns the time value in milliseconds, or nothing for a string it does
  not accept. A time value beyond \<open>8.64e15\<close> in magnitude is not a valid date.
\<close>

definition Date_getTime :: "(string \<Rightarrow> int option) \<Rightarrow> string \<Rightarrow> js_number" where
  "Date_getTime parse s =
     (case parse s of
        None \<Rightarrow> NaN
      | Some t \<Rightarrow> if \<bar>t\<bar> \<le> 8640000000000000 then Finite (of_int t) else NaN)"

subsection \<open>Duty hours\<close>

text \<open>
  \<open>getDutyHoursData\<close>. \<open>hours_between\<close> is the arithmetic of the \<open>map\<close> callback on the
  two time values; the result list is cut to its first ten entries.
\<close>

definition hours_between :: "js_number \<Rightarrow> js_number \<Rightarrow> js_number" where
  "hours_between start_time end_time =
     (let hours = js_div (js_sub end_time start_time) (1000 * 60 * 60)
      in js_div (Math_round (js_mul hours 100)) 100)"

record duty_entry =
  flight :: string
  hours :: js_number
  route :: string

definition getDutyHoursData :: "(string \<Rightarrow> int option) \<Rightarrow> RosterResponse option \<Rightarrow> duty_entry list" where
  "getDutyHoursData parse rosterData =
     (case rosterData of
        None \<Rightarrow> []
      | Some data \<Rightarrow>
          (case roster data of
             None \<Rightarrow> []
           | Some fls \<Rightarrow>
               take 10
                 (map (\<lambda>f. \<lparr>flight = Flight_Number_FD f,
                             hours = hours_between (Date_getTime parse (Duty_Start f))
                                       (Date_getTime parse (Duty_End f)),
                             route = Origin_FD f @ ''-'' @ Destination_FD f\<rparr>)
                    fls)))"

text \<open>
  The specification's words: a duration in hours rounded to two decimal places, in exact
  arithmetic and with a half rounded upwards as \<open>Math.round\<close> does. \<open>scaled d\<close> is the
  number the code hands to \<open>Math.round\<close> for a difference of \<open>d\<close> milliseconds.
\<close>

definition round2 :: "rat \<Rightarrow> rat" where
  "round2 x = of_int \<lfloor>x * 100 + 1 / 2\<rfloor> / 100"

definition scaled :: "int \<Rightarrow> rat" where
  "scaled d = fl (fl (fl (of_int d) / 3600000) * 100)"

text \<open>
  The magnitudes of the numbers that occur: zero, or between \<open>1e-8\<close> and \<open>1e17\<close>.
\<close>

definition moderate :: "rat \<Rightarrow> bool" where
  "moderate v \<longleftrightarrow> v = 0 \<or> (1 / 10 ^ 8 \<le> \<bar>v\<bar> \<and> \<bar>v\<bar> \<le> 10 ^ 17)"

text \<open>
  Sample data: the time values of four ISO date strings, and a flight whose duty lasts ten
  seconds.
\<close>

definition sample_dates :: "string \<Rightarrow> int option" where
  "sample_dates =
     map_of [(''2023-10-01T05:00:00Z'', 1696136400000), (''2023-10-01T08:40:00Z'', 1696149600000),
             (''2023-10-01T10:00:00Z'', 1696154400000), (''2023-10-01T10:00:10Z'', 1696154410000)]"

definition short_duty :: FlightData where
  "short_duty = \<lparr>Date_FD = ''2023-10-01'', Flight_Number_FD = ''6E303'',
     Duty_Start = ''2023-10-01T10:00:00Z'', Duty_End = ''2023-10-01T10:00:10Z'',
     Aircraft_Type_FD = ''A320neo'', Origin_FD = ''DEL'', Destination_FD = ''DEL'',
     Duration = ''0:00'',
     Crew_Members = Some [\<lparr>Crew_ID_ref = ''CP001'', Crew_Rank = ''Captain''\<rparr>]\<rparr>"

section \<open>Properties of the filter engine\<close>

lemma filter_js_pure: "filter_js (\<lambda>x. Inr (q x)) xs = Inr (filter q xs)"
  by (induction xs) auto

lemma filter_js_char:
  "filter_js p xs =
     (if \<forall>x\<in>set xs. p x \<noteq> Inl TypeError then Inr (filter (\<lambda>x. p x = Inr True) xs)
      else Inl TypeError)"
proof (induction xs)
  case Nil
  show ?case by simp
next
  case (Cons x xs)
  show ?case
  proof (cases "p x")
    case (Inl e)
    then show ?thesis by (cases e) auto
  next
    case (Inr b)
    with Cons show ?thesis by auto
  qed
qed

lemma filter_js_Inr_iff:
  "filter_js p xs = Inr ys \<longleftrightarrow>
     (\<forall>x\<in>set xs. p x \<noteq> Inl TypeError) \<and> ys = filter (\<lambda>x. p x = Inr True) xs"
  by (subst filter_js_char) auto

lemma then_do_Inr_iff:
  "then_do r f = Inr y \<longleftrightarrow> (\<exists>v. r = Inr v \<and> f v = Inr y)"
  by (cases r) (auto simp: then_do_def)

lemma crew_has_license_total:
  "crew_has_license a x \<noteq> Inl TypeError \<longleftrightarrow> Aircraft_Type_License x \<noteq> None"
  by (auto simp: crew_has_license_def split: option.splits)

lemma filterCrewMembers_Inr_iff:
  "filterCrewMembers lower xs s b r a = Inr ys \<longleftrightarrow>
     (s \<noteq> [] \<longrightarrow> (\<forall>x\<in>set xs. crew_matches_search lower s x \<noteq> Inl TypeError)) \<and>
     (a \<noteq> ''all'' \<longrightarrow> (\<forall>x\<in>set xs. keeps3 lower s b r x \<longrightarrow> Aircraft_Type_License x \<noteq> None)) \<and>
     ys = filter (keeps lower s b r a) xs"
  unfolding filterCrewMembers_def then_do_Inr_iff
  by (auto simp: filter_js_pure filter_js_Inr_iff keeps_def keeps3_def crew_has_license_total
      intro!: filter_cong)

lemma keeps_combine:
  "distinct_fields c1 c2 \<Longrightarrow>
   keeps lower (crit_search (combine c1 c2)) (crit_base (combine c1 c2)) (crit_rank (combine c1 c2))
     (crit_aircraft (combine c1 c2)) x \<longleftrightarrow>
   keeps lower (crit_search c1) (crit_base c1) (crit_rank c1) (crit_aircraft c1) x \<and>
   keeps lower (crit_search c2) (crit_base c2) (crit_rank c2) (crit_aircraft c2) x"
  by (auto simp: distinct_fields_def combine_def keeps_def keeps3_def)

text \<open>
  C5. Filter identity law: with the search text empty and every categorical criterion at
  the sentinel \<open>all\<close>, both versions of \<open>filterCrewMembers\<close> return the input
  collection unchanged, whatever the items are and whatever \<open>toLowerCase\<close> does.
\<close>

theorem filter_identity:
  "filterCrewMembers lower items [] ''all'' ''all'' ''all'' = Inr items \<and>
   filterCrewMembers_CrewList lower items [] ''all'' ''all'' ''all'' = Inr items \<and>
   apply_criteria lower items allCriteria = Inr items"
  by (simp add: filterCrewMembers_def filterCrewMembers_CrewList_def apply_criteria_def
      allCriteria_def then_do_def)

lemma apply_criteria_InrD:
  assumes "apply_criteria lower items c = Inr r"
  shows "r = filter (keeps lower (crit_search c) (crit_base c) (crit_rank c) (crit_aircraft c)) items"
    and "crit_search c \<noteq> [] \<Longrightarrow> x \<in> set items \<Longrightarrow>
           crew_matches_search lower (crit_search c) x \<noteq> Inl TypeError"
    and "crit_aircraft c \<noteq> ''all'' \<Longrightarrow> x \<in> set items \<Longrightarrow>
           keeps3 lower (crit_search c) (crit_base c) (crit_rank c) x \<Longrightarrow>
           Aircraft_Type_License x \<noteq> None"
  using assms unfolding apply_criteria_def filterCrewMembers_Inr_iff by simp_all

lemma keeps_combine_weaker:
  assumes "distinct_fields c1 c2"
    and "keeps3 lower (crit_search (combine c1 c2)) (crit_base (combine c1 c2))
           (crit_rank (combine c1 c2)) x"
  shows "keeps3 lower (crit_search c1) (crit_base c1) (crit_rank c1) x \<and>
         keeps3 lower (crit_search c2) (crit_base c2) (crit_rank c2) x"
  using assms unfolding distinct_fields_def keeps3_def combine_def
  by (cases "crit_search c1 = []"; cases "crit_base c1 = ''all''";
      cases "crit_rank c1 = ''all''"; simp)

text \<open>
  C6. Filter conjunction law: when two criteria constrain distinct fields and each of
  them alone returns a result, applying both together returns exactly the items of the
  input that are in both single results, in the order of the input.
\<close>

theorem filter_conjunction:
  assumes d: "distinct_fields c1 c2"
    and r1: "apply_criteria lower items c1 = Inr r1"
    and r2: "apply_criteria lower items c2 = Inr r2"
  shows "apply_criteria lower items (combine c1 c2) =
           Inr (filter (\<lambda>x. x \<in> set r1 \<and> x \<in> set r2) items)"
proof -
  let ?c = "combine c1 c2"
  note e1 = apply_criteria_InrD(1)[OF r1] and e2 = apply_criteria_InrD(1)[OF r2]
  have search_ok: "crew_matches_search lower (crit_search ?c) x \<noteq> Inl TypeError"
    if "crit_search ?c \<noteq> []" "x \<in> set items" for x
  proof (cases "crit_search c1 = []")
    case True
    then have "crit_search ?c = crit_search c2" by (simp add: combine_def)
    with that apply_criteria_InrD(2)[OF r2] show ?thesis by simp
  next
    case False
    then have "crit_search ?c = crit_search c1" by (simp add: combine_def)
    with that apply_criteria_InrD(2)[OF r1] show ?thesis by simp
  qed
  have aircraft_ok: "Aircraft_Type_License x \<noteq> None"
    if "crit_aircraft ?c \<noteq> ''all''" "x \<in> set items"
      "keeps3 lower (crit_search ?c) (crit_base ?c) (crit_rank ?c) x" for x
  proof (cases "crit_aircraft c1 = ''all''")
    case True
    then have "crit_aircraft ?c = crit_aircraft c2" by (simp add: combine_def)
    with that keeps_combine_weaker[OF d that(3)] apply_criteria_InrD(3)[OF r2]
    show ?thesis by simp
  next
    case False
    with that keeps_combine_weaker[OF d that(3)] apply_criteria_InrD(3)[OF r1]
    show ?thesis by simp
  qed
  have "filter (keeps lower (crit_search ?c) (crit_base ?c) (crit_rank ?c) (crit_aircraft ?c)) items =
        filter (\<lambda>x. x \<in> set r1 \<and> x \<in> set r2) items"
    by (rule filter_cong) (simp_all add: keeps_combine[OF d] e1 e2)
  moreover have "crit_search ?c \<noteq> [] \<longrightarrow>
      (\<forall>x\<in>set items. crew_matches_search lower (crit_search ?c) x \<noteq> Inl TypeError)"
    using search_ok by blast
  moreover have "crit_aircraft ?c \<noteq> ''all'' \<longrightarrow>
      (\<forall>x\<in>set items. keeps3 lower (crit_search ?c) (crit_base ?c) (crit_rank ?c) x
         \<longrightarrow> Aircraft_Type_License x \<noteq> None)"
    using aircraft_ok by blast
  ultimately show ?thesis
    unfolding apply_criteria_def filterCrewMembers_Inr_iff by simp
qed

text \<open>
  The specification's scenario: three crew members, Base \<open>DEL\<close> and Rank \<open>Captain\<close>;
  one member matches both.
\<close>

theorem filter_conjunction_witness:
  "distinct_fields (allCriteria\<lparr>crit_base := ''DEL''\<rparr>) (allCriteria\<lparr>crit_rank := ''Captain''\<rparr>) \<and>
   apply_criteria toLowerCase_ascii [crew_BOM_Captain, crew_DEL_Captain, crew_DEL_Purser]
     (allCriteria\<lparr>crit_base := ''DEL''\<rparr>) = Inr [crew_DEL_Captain, crew_DEL_Purser] \<and>
   apply_criteria toLowerCase_ascii [crew_BOM_Captain, crew_DEL_Captain, crew_DEL_Purser]
     (allCriteria\<lparr>crit_rank := ''Captain''\<rparr>) = Inr [crew_BOM_Captain, crew_DEL_Captain] \<and>
   apply_criteria toLowerCase_ascii [crew_BOM_Captain, crew_DEL_Captain, crew_DEL_Purser]
     (combine (allCriteria\<lparr>crit_base := ''DEL''\<rparr>) (allCriteria\<lparr>crit_rank := ''Captain''\<rparr>))
     = Inr [crew_DEL_Captain]"
proof -
  have d: "distinct_fields (allCriteria\<lparr>crit_base := ''DEL''\<rparr>)
             (allCriteria\<lparr>crit_rank := ''Captain''\<rparr>)"
    by (simp add: distinct_fields_def allCriteria_def)
  have r1: "apply_criteria toLowerCase_ascii [crew_BOM_Captain, crew_DEL_Captain, crew_DEL_Purser]
     (allCriteria\<lparr>crit_base := ''DEL''\<rparr>) = Inr [crew_DEL_Captain, crew_DEL_Purser]"
    by (simp add: apply_criteria_def allCriteria_def filterCrewMembers_def then_do_def
        crew_BOM_Captain_def crew_DEL_Captain_def crew_DEL_Purser_def)
  have r2: "apply_criteria toLowerCase_ascii [crew_BOM_Captain, crew_DEL_Captain, crew_DEL_Purser]
     (allCriteria\<lparr>crit_rank := ''Captain''\<rparr>) = Inr [crew_BOM_Captain, crew_DEL_Captain]"
    by (simp add: apply_criteria_def allCriteria_def filterCrewMembers_def then_do_def
        crew_BOM_Captain_def crew_DEL_Captain_def crew_DEL_Purser_def)
  have "filter (\<lambda>x. x \<in> set [crew_DEL_Captain, crew_DEL_Purser] \<and>
                     x \<in> set [crew_BOM_Captain, crew_DEL_Captain])
          [crew_BOM_Captain, crew_DEL_Captain, crew_DEL_Purser] = [crew_DEL_Captain]"
    by (simp add: crew_BOM_Captain_def crew_DEL_Captain_def crew_DEL_Purser_def)
  with filter_conjunction[OF d r1 r2] d r1 r2 show ?thesis by simp
qed

text \<open>
  C7 as stated fails: an item without \<open>Name\<close> makes the search filter throw instead of
  being treated as non-matching.
\<close>

theorem filter_missing_name_counterexample:
  "filterCrewMembers toLowerCase_ascii [crew_without_name] ''a'' ''all'' ''all'' ''all'' = Inl TypeError"
  by (simp add: filterCrewMembers_def then_do_def crew_matches_search_def lower_includes_def
      or_else_def crew_without_name_def)

lemma filterCrewMembers_CrewList_eq:
  "filterCrewMembers_CrewList lower xs s b r a =
     filterCrewMembers lower xs s (if b = [] then ''all'' else b) (if r = [] then ''all'' else r)
       (if a = [] then ''all'' else a)"
  by (simp add: filterCrewMembers_CrewList_def filterCrewMembers_def)

lemma crew_matches_search_total:
  "Name c \<noteq> None \<Longrightarrow> Crew_ID c \<noteq> None \<Longrightarrow> crew_matches_search lower s c \<noteq> Inl TypeError"
  by (auto simp: crew_matches_search_def lower_includes_def or_else_def split: bool.splits)

lemma flight_matches_search_total:
  "Flight_Number f \<noteq> None \<Longrightarrow> Origin f \<noteq> None \<Longrightarrow> Destination f \<noteq> None \<Longrightarrow>
   flight_matches_search lower s f \<noteq> Inl TypeError"
  by (auto simp: flight_matches_search_def lower_includes_def or_else_def split: bool.splits)

lemma filterCrewMembers_present:
  assumes "\<forall>c\<in>set xs. Name c \<noteq> None \<and> Crew_ID c \<noteq> None \<and> Aircraft_Type_License c \<noteq> None"
  shows "filterCrewMembers lower xs s b r a = Inr (filter (keeps lower s b r a) xs)"
  unfolding filterCrewMembers_Inr_iff using assms crew_matches_search_total by blast

lemma keeps_Base: "b \<noteq> ''all'' \<Longrightarrow> keeps lower s b r a c \<Longrightarrow> Base c = Some b"
  by (simp add: keeps_def keeps3_def)

lemma keeps_Rank: "r \<noteq> ''all'' \<Longrightarrow> keeps lower s b r a c \<Longrightarrow> Rank c = Some r"
  by (simp add: keeps_def keeps3_def)

text \<open>
  C7, amended. When every crew member carries \<open>Name\<close>, \<open>Crew_ID\<close> and
  \<open>Aircraft_Type_License\<close> and every flight carries \<open>Flight_Number\<close>, \<open>Origin\<close> and
  \<open>Destination\<close>, no criteria make \<open>filterCrewMembers\<close> (either version) or
  \<open>filterFlights\<close> throw; an item whose \<open>Base\<close> or \<open>Rank\<close> is missing is not in the
  result of an active base or rank criterion.
\<close>

theorem filter_total_on_present_fields:
  assumes crew: "\<forall>c\<in>set crewMembers.
      Name c \<noteq> None \<and> Crew_ID c \<noteq> None \<and> Aircraft_Type_License c \<noteq> None"
    and fl: "\<forall>f\<in>set all_flights.
      Flight_Number f \<noteq> None \<and> Origin f \<noteq> None \<and> Destination f \<noteq> None"
  shows "(\<exists>ys. filterCrewMembers lower crewMembers s b r a = Inr ys \<and>
            (b \<noteq> ''all'' \<longrightarrow> (\<forall>c\<in>set ys. Base c = Some b)) \<and>
            (r \<noteq> ''all'' \<longrightarrow> (\<forall>c\<in>set ys. Rank c = Some r))) \<and>
         (\<exists>ys. filterCrewMembers_CrewList lower crewMembers s b r a = Inr ys \<and>
            (b \<noteq> [] \<and> b \<noteq> ''all'' \<longrightarrow> (\<forall>c\<in>set ys. Base c = Some b)) \<and>
            (r \<noteq> [] \<and> r \<noteq> ''all'' \<longrightarrow> (\<forall>c\<in>set ys. Rank c = Some r))) \<and>
         (\<exists>fs. filterFlights lower all_flights s = Inr fs)"
proof (intro conjI)
  show "\<exists>ys. filterCrewMembers lower crewMembers s b r a = Inr ys \<and>
            (b \<noteq> ''all'' \<longrightarrow> (\<forall>c\<in>set ys. Base c = Some b)) \<and>
            (r \<noteq> ''all'' \<longrightarrow> (\<forall>c\<in>set ys. Rank c = Some r))"
    using filterCrewMembers_present[OF crew] keeps_Base keeps_Rank by fastforce
next
  let ?b = "if b = [] then ''all'' else b" and ?r = "if r = [] then ''all'' else r"
    and ?a = "if a = [] then ''all'' else a"
  have "filterCrewMembers_CrewList lower crewMembers s b r a =
          Inr (filter (keeps lower s ?b ?r ?a) crewMembers)"
    unfolding filterCrewMembers_CrewList_eq by (rule filterCrewMembers_present[OF crew])
  moreover have "b \<noteq> [] \<and> b \<noteq> ''all'' \<longrightarrow>
      (\<forall>c\<in>set (filter (keeps lower s ?b ?r ?a) crewMembers). Base c = Some b)"
    using keeps_Base[of ?b lower s ?r ?a] by auto
  moreover have "r \<noteq> [] \<and> r \<noteq> ''all'' \<longrightarrow>
      (\<forall>c\<in>set (filter (keeps lower s ?b ?r ?a) crewMembers). Rank c = Some r)"
    using keeps_Rank[of ?r lower s ?b ?a] by auto
  ultimately show "\<exists>ys. filterCrewMembers_CrewList lower crewMembers s b r a = Inr ys \<and>
            (b \<noteq> [] \<and> b \<noteq> ''all'' \<longrightarrow> (\<forall>c\<in>set ys. Base c = Some b)) \<and>
            (r \<noteq> [] \<and> r \<noteq> ''all'' \<longrightarrow> (\<forall>c\<in>set ys. Rank c = Some r))"
    by blast
next
  show "\<exists>fs. filterFlights lower all_flights s = Inr fs"
    using fl flight_matches_search_total
    by (auto simp: filterFlights_def filter_js_char)
qed

text \<open>
  Two crew members, one without \<open>Base\<close>, and one flight, under an active search, base,
  rank and aircraft criterion.
\<close>

theorem filter_total_on_present_fields_witness:
  "(\<exists>ys. filterCrewMembers toLowerCase_ascii [crew_DEL_Captain, crew_without_base] ''rao'' ''DEL'' ''Captain''
           ''A320'' = Inr ys \<and>
         (\<forall>c\<in>set ys. Base c = Some ''DEL'') \<and> (\<forall>c\<in>set ys. Rank c = Some ''Captain'')) \<and>
   (\<exists>fs. filterFlights toLowerCase_ascii [flight_6E101] ''rao'' = Inr fs)"
proof -
  have h1: "\<forall>c\<in>set [crew_DEL_Captain, crew_without_base].
      Name c \<noteq> None \<and> Crew_ID c \<noteq> None \<and> Aircraft_Type_License c \<noteq> None"
    by (simp add: crew_DEL_Captain_def crew_without_base_def)
  have h2: "\<forall>f\<in>set [flight_6E101].
      Flight_Number f \<noteq> None \<and> Origin f \<noteq> None \<and> Destination f \<noteq> None"
    by (simp add: flight_6E101_def)
  from filter_total_on_present_fields[OF h1 h2, of toLowerCase_ascii "''rao''" "''DEL''" "''Captain''" "''A320''"]
  show ?thesis by simp
qed

text \<open>The same input evaluated: the member without \<open>Base\<close> is dropped, nothing is thrown.\<close>

lemma filter_missing_base_run:
  "filterCrewMembers toLowerCase_ascii [crew_DEL_Captain, crew_without_base] ''rao'' ''DEL'' ''Captain'' ''A320''
     = Inr [crew_DEL_Captain]"
  by (simp add: filterCrewMembers_def then_do_def crew_matches_search_def lower_includes_def
      or_else_def crew_has_license_def toLowerCase_ascii_def
      crew_DEL_Captain_def crew_without_base_def)

section \<open>Properties of the disruption chat\<close>

lemma utf16_of_eq_iff [simp]: "utf16_of s = utf16_of t \<longleftrightarrow> s = t"
proof -
  have "inj (of_char :: char \<Rightarrow> nat)" by (rule injI) simp
  then show ?thesis by (simp add: utf16_of_def inj_map_eq_map)
qed

lemma utf16_of_Nil [simp]: "utf16_of [] = []"
  by (simp add: utf16_of_def)

lemma utf16_of_eq_Nil_iff [simp]: "utf16_of s = [] \<longleftrightarrow> s = []"
  by (simp add: utf16_of_def)

lemma utf16_of_mem_iff [simp]: "utf16_of s \<in> utf16_of ` S \<longleftrightarrow> s \<in> S"
  by (auto simp: image_iff)

text \<open>
  What \<open>trim\<close> leaves is empty exactly when the text consists of white space.
\<close>

lemma trim_blank: "\<forall>c\<in>set s. isWhiteSpace c \<Longrightarrow> trim s = []"
  by (auto simp: trim_def dest: set_dropWhileD)

lemma trim_Nil_iff: "trim s = [] \<longleftrightarrow> (\<forall>c\<in>set s. isWhiteSpace c)"
proof
  assume t: "trim s = []"
  then have "dropWhile isWhiteSpace (rev (dropWhile isWhiteSpace s)) = []"
    by (simp add: trim_def)
  then have "\<forall>c\<in>set (dropWhile isWhiteSpace s). isWhiteSpace c"
    by (simp add: dropWhile_eq_Nil_conv)
  then have "dropWhile isWhiteSpace s = []"
    by (metis hd_dropWhile list.set_sel(1))
  then show "\<forall>c\<in>set s. isWhiteSpace c" by (simp add: dropWhile_eq_Nil_conv)
qed (rule trim_blank)

text \<open>
  C8. Chat submit no-op laws: when the input holds blank or whitespace-only text (any
  sequence of the white space and line terminator code units of ECMAScript, which are what
  \<open>trim\<close> removes), or a request is pending, \<open>handleSendMessage\<close> leaves the whole
  state (the message list with it) unchanged and sends nothing.
\<close>

theorem chat_submit_noop:
  assumes "currentMessage st = Str text \<or> currentMessage st = StringObject text"
    and "(\<forall>c\<in>set text. isWhiteSpace c) \<or> isLoading st"
  shows "handleSendMessage now st = Inr (st, []) \<and> chat_step (Submit now) st = Inr (st, [])"
  using assms by (auto simp: handleSendMessage_def then_do_def trim_blank)

text \<open>
  White space that is not ASCII in the input with no request pending, and a query typed
  while a request is pending.
\<close>

theorem chat_submit_noop_witness:
  "handleSendMessage 1700000000000 ((initial_chat 0)\<lparr>currentMessage := Str blank_text\<rparr>) =
     Inr ((initial_chat 0)\<lparr>currentMessage := Str blank_text\<rparr>, []) \<and>
   handleSendMessage 1700000000000 (chat_typed\<lparr>isLoading := True\<rparr>) =
     Inr (chat_typed\<lparr>isLoading := True\<rparr>, [])"
proof -
  have a: "currentMessage ((initial_chat 0)\<lparr>currentMessage := Str blank_text\<rparr>) = Str blank_text \<or>
           currentMessage ((initial_chat 0)\<lparr>currentMessage := Str blank_text\<rparr>)
             = StringObject blank_text"
    by simp
  have b: "(\<forall>c\<in>set blank_text. isWhiteSpace c) \<or>
           isLoading ((initial_chat 0)\<lparr>currentMessage := Str blank_text\<rparr>)"
    by (simp add: blank_text_def isWhiteSpace_def)
  have c: "currentMessage (chat_typed\<lparr>isLoading := True\<rparr>) = Str (utf16_of ''CP001 called in sick'') \<or>
           currentMessage (chat_typed\<lparr>isLoading := True\<rparr>)
             = StringObject (utf16_of ''CP001 called in sick'')"
    by (simp add: chat_typed_def)
  have d: "(\<forall>c\<in>set (utf16_of ''CP001 called in sick''). isWhiteSpace c) \<or>
           isLoading (chat_typed\<lparr>isLoading := True\<rparr>)"
    by simp
  from chat_submit_noop[OF a b] chat_submit_noop[OF c d] show ?thesis by blast
qed

text \<open>
  Conversely, a text with a character that is not white space is accepted when no request
  is pending: the user's message is appended and one request is sent.
\<close>

lemma chat_submit_accepted:
  assumes "currentMessage st = Str text" and "\<exists>c\<in>set text. \<not> isWhiteSpace c"
    and "\<not> isLoading st"
  shows "handleSendMessage now st =
           Inr (st\<lparr>messages := messages st @
                      [\<lparr>msg_id = decimal now, msg_type = User, content = Some text,
                        timestamp = now, suggestedActions = None\<rparr>],
                    currentMessage := Str [], isLoading := True\<rparr>,
                [\<lparr>message = text\<rparr>])"
  using assms by (simp add: handleSendMessage_def then_do_def trim_Nil_iff Let_def)

lemma handleSendMessage_accepted:
  assumes "handleSendMessage now st = Inr (st1, [req])"
  shows "st1 = st\<lparr>messages := messages st @
                      [\<lparr>msg_id = decimal now, msg_type = User, content = Some (message req),
                        timestamp = now, suggestedActions = None\<rparr>],
                    currentMessage := Str [], isLoading := True\<rparr>"
  using assms
  by (auto simp: handleSendMessage_def then_do_def Let_def split: sum.splits if_splits)

text \<open>
  The failures that reach the \<open>catch\<close> block: after an accepted submit, which appended
  the user's message \<open>u\<close> and sent one request, a request whose \<open>try\<close> block throws
  appends exactly the fixed apology after \<open>u\<close>, clears \<open>isLoading\<close>, removes nothing
  and sends no further request.
\<close>

lemma chat_catch_appends_apology:
  assumes "try_block_throws outcome"
    and "handleSendMessage t0 st0 = Inr (st1, [req])"
  shows "\<exists>u. messages st1 = messages st0 @ [u] \<and> msg_type u = User \<and>
             content u = Some (message req) \<and>
             chat_step (Settled t1 outcome) st1 =
               Inr (st1\<lparr>messages := messages st0 @ [u, errorMessage t1], isLoading := False\<rparr>, [])
             \<and> msg_type (errorMessage t1) = Bot \<and>
             content (errorMessage t1) = Some (utf16_of (''I apologize, but I'' @ [CHR 0x27] @ ''m having trouble processing your request right now. Please try again later.''))"
proof -
  let ?u = "\<lparr>msg_id = decimal t0, msg_type = User, content = Some (message req),
             timestamp = t0, suggestedActions = None\<rparr>"
  have st1: "st1 = st0\<lparr>messages := messages st0 @ [?u], currentMessage := Str [],
                       isLoading := True\<rparr>"
    by (rule handleSendMessage_accepted[OF assms(2)])
  have "handleSendMessage_settled t1 outcome st1 =
          st1\<lparr>messages := messages st1 @ [errorMessage t1], isLoading := False\<rparr>"
    using assms(1) by (cases outcome) simp_all
  then have "chat_step (Settled t1 outcome) st1 =
          Inr (st1\<lparr>messages := messages st0 @ [?u, errorMessage t1], isLoading := False\<rparr>, [])"
    by (simp add: st1)
  moreover have "messages st1 = messages st0 @ [?u]" by (simp add: st1)
  ultimately show ?thesis by (intro exI[of _ ?u]) (simp add: errorMessage_def)
qed

lemma chat_typed_submit:
  "handleSendMessage 1700000000000 chat_typed =
     Inr (chat_sent, [\<lparr>message = utf16_of ''CP001 called in sick''\<rparr>])"
proof -
  have "\<not> isWhiteSpace (of_char CHR ''C'')" by (simp add: isWhiteSpace_def)
  then have "\<exists>c\<in>set (utf16_of ''CP001 called in sick''). \<not> isWhiteSpace c"
    by (simp add: utf16_of_def)
  then show ?thesis
    by (simp add: chat_submit_accepted chat_typed_def chat_sent_def initial_chat_def)
qed

text \<open>
  A query is submitted from the initial chat and the \<open>fetch\<close> of its request rejects.
\<close>

lemma chat_fetch_rejected_run:
  "\<exists>u. messages chat_sent = messages chat_typed @ [u] \<and> msg_type u = User \<and>
        content u = Some (utf16_of ''CP001 called in sick'') \<and>
        chat_step (Settled 1700000000900 Fetch_rejected) chat_sent =
          Inr (chat_sent\<lparr>messages := messages chat_typed @ [u, errorMessage 1700000000900],
                         isLoading := False\<rparr>, [])"
proof -
  have h: "try_block_throws Fetch_rejected" by simp
  from chat_catch_appends_apology[OF h chat_typed_submit, of 1700000000900]
  show ?thesis by auto
qed

text \<open>
  The same in any state (after a reset of the chat, for instance): the apology is appended
  to the list as it is, and nothing is sent.
\<close>

lemma chat_failure_any_state:
  assumes "try_block_throws outcome"
  shows "chat_step (Settled now outcome) st =
           Inr (st\<lparr>messages := messages st @ [errorMessage now], isLoading := False\<rparr>, [])"
  using assms by (cases outcome) simp_all

text \<open>
  The handler does not read the HTTP status: whatever the status, a response with a JSON
  object as body is handled as an answer.
\<close>

lemma chat_status_not_read:
  "chat_step (Settled now (Json status d)) st = chat_step (Settled now (Json 200 d)) st"
  by simp

text \<open>
  C9. On failure of the chat request the fixed apology is to be appended. The code does so
  only for the failures that throw inside its \<open>try\<close> block; it never tests
  \<open>response.ok\<close>, as \<open>generateRoster\<close> and \<open>deleteRoster\<close> of the index page do. When
  the chat endpoint answers with status 500 and an error object as JSON body, which has
  neither \<open>response\<close> nor \<open>suggested_actions\<close>, the request has failed and what is
  appended after the user's message is a bot message without content, not the apology.
\<close>

theorem chat_failed_request_without_apology:
  "request_failed (Json 500 \<lparr>response = None, suggested_actions = None\<rparr>) \<and>
   chat_step (Settled 1700000000900 (Json 500 \<lparr>response = None, suggested_actions = None\<rparr>))
       chat_sent =
     Inr (chat_sent\<lparr>messages := messages chat_sent @
                 [\<lparr>msg_id = decimal 1700000000901, msg_type = Bot, content = None,
                   timestamp = 1700000000900, suggestedActions = None\<rparr>],
              isLoading := False\<rparr>, []) \<and>
   content (errorMessage 1700000000900) =
     Some (utf16_of (''I apologize, but I'' @ [CHR 0x27] @ ''m having trouble processing your request right now. Please try again later.''))"
  by (simp add: response_ok_def botMessage_def errorMessage_def)

text \<open>
  \<open>handleSuggestedAction\<close> only touches the input text: whenever it returns, the message
  list and \<open>isLoading\<close> are as before, and the step sends no request.
\<close>

lemma handleSuggestedAction_keeps_messages:
  "handleSuggestedAction action st = Inr st' \<Longrightarrow>
     messages st' = messages st \<and> isLoading st' = isLoading st"
  by (auto simp: handleSuggestedAction_def setCurrentMessage_def then_do_def
      split: staged.splits sum.splits)

lemma chat_step_select_no_request:
  "chat_step (SelectSuggestedAction action) st = Inr (st', reqs) \<Longrightarrow>
     reqs = [] \<and> messages st' = messages st \<and> isLoading st' = isLoading st"
  using handleSuggestedAction_keeps_messages[of action st]
  by (auto simp: then_do_def split: sum.splits)

text \<open>
  The three known ids stage their canned queries.
\<close>

lemma handleSuggestedAction_known:
  "handleSuggestedAction (utf16_of ''analyze_disruption'') st = Inr (st\<lparr>currentMessage :=
     Str (utf16_of
       ''Please analyze the current disruption situation and provide recommendations.'')\<rparr>)"
  "handleSuggestedAction (utf16_of ''view_roster'') st = Inr (st\<lparr>currentMessage :=
     Str (utf16_of ''Show me the current roster status and any conflicts.'')\<rparr>)"
  "handleSuggestedAction (utf16_of ''check_compliance'') st = Inr (st\<lparr>currentMessage :=
     Str (utf16_of ''Check DGCA compliance for the current roster assignments.'')\<rparr>)"
  by (simp_all add: handleSuggestedAction_def setCurrentMessage_def staged_message_def
      actionMessages_def)

text \<open>
  An action that is neither a known id nor the name of a property of \<open>Object.prototype\<close>
  is staged verbatim.
\<close>

lemma handleSuggestedAction_passthrough:
  assumes "map_of actionMessages action = None"
    and "action \<notin> set (map utf16_of Object_prototype_names)"
  shows "handleSuggestedAction action st = Inr (st\<lparr>currentMessage := Str action\<rparr>)"
  using assms
  by (simp add: handleSuggestedAction_def setCurrentMessage_def staged_message_def
      Object_prototype_names_def)

text \<open>
  C10. The pass-through of unknown action strings misses the names that
  \<open>Object.prototype\<close> defines: for the action \<open>toString\<close> the table read returns the
  inherited function, the state setter calls it as an updater, and the text staged is
  \<open>[object Undefined]\<close>, not the action string.
\<close>

theorem suggested_action_toString:
  "handleSuggestedAction (utf16_of ''toString'') (initial_chat 0) =
     Inr ((initial_chat 0)\<lparr>currentMessage := Str (utf16_of ''[object Undefined]'')\<rparr>)"
  by (simp add: handleSuggestedAction_def setCurrentMessage_def staged_message_def
      actionMessages_def Object_prototype_functions_def call_updater_def then_do_def)

text \<open>
  Other inherited names throw in the updater, or stage a value that is not a string.
\<close>

lemma suggested_action_hasOwnProperty:
  "handleSuggestedAction (utf16_of ''hasOwnProperty'') st = Inl TypeError"
  by (simp add: handleSuggestedAction_def setCurrentMessage_def staged_message_def
      actionMessages_def Object_prototype_functions_def call_updater_def then_do_def)

lemma suggested_action_proto:
  "handleSuggestedAction (utf16_of ''__proto__'') st = Inr (st\<lparr>currentMessage := ObjectPrototype\<rparr>)"
  by (simp add: handleSuggestedAction_def setCurrentMessage_def staged_message_def
      actionMessages_def Object_prototype_functions_def)

section \<open>Properties of the violations histogram\<close>

lemma sum_of_counts_append [simp]:
  "sum_of_counts (xs @ ys) = sum_of_counts xs + sum_of_counts ys"
  by (simp add: sum_of_counts_def)

lemma sum_of_counts_insort:
  "sum_of_counts (insort_key f x xs) = sum_of_counts [x] + sum_of_counts xs"
  by (induction xs) (auto simp: sum_of_counts_def)

lemma sum_of_counts_sort: "sum_of_counts (sort_key f xs) = sum_of_counts xs"
  by (induction xs) (auto simp: sum_of_counts_insort, simp add: sum_of_counts_def)

lemma sum_of_counts_partition:
  "sum_of_counts (filter (\<lambda>(k, v). P k) xs) + sum_of_counts (filter (\<lambda>(k, v). \<not> P k) xs)
     = sum_of_counts xs"
  by (induction xs) (auto simp: sum_of_counts_def)

lemma sum_of_counts_entries: "sum_of_counts (Object_entries obj) = sum_of_counts obj"
  unfolding Object_entries_def
  by (simp add: sum_of_counts_sort sum_of_counts_partition)

lemma all_counts_entries: "all_counts obj \<Longrightarrow> all_counts (Object_entries obj)"
  by (auto simp: all_counts_def Object_entries_def list_all_iff)

lemma sum_of_counts_update:
  assumes "distinct (map fst acc)" and "map_of acc k = Some (Num n)"
  shows "sum_of_counts (map (\<lambda>(k', v'). if k' = k then (k', Num (Suc n)) else (k', v')) acc)
           = sum_of_counts acc + 1"
  using assms
proof (induction acc)
  case Nil
  then show ?case by simp
next
  case (Cons a acc)
  obtain k0 v0 where a: "a = (k0, v0)" by (cases a)
  show ?case
  proof (cases "k0 = k")
    case True
    with Cons.prems a have v0: "v0 = Num n" and notin: "k \<notin> fst ` set acc" by auto
    from notin have "map (\<lambda>(k', v'). if k' = k then (k', Num (Suc n)) else (k', v')) acc = acc"
      by (induction acc) auto
    with True a v0 show ?thesis by (simp add: sum_of_counts_def)
  next
    case False
    with Cons a show ?thesis by (simp add: sum_of_counts_def)
  qed
qed

lemma step_counts:
  assumes k: "k \<notin> set Object_prototype_names"
    and d: "distinct (map fst acc)" and c: "all_counts acc"
  shows "distinct (map fst (assign acc k (increment acc k))) \<and>
         all_counts (assign acc k (increment acc k)) \<and>
         sum_of_counts (assign acc k (increment acc k)) = sum_of_counts acc + 1"
proof (cases "map_of acc k")
  case None
  from k have k': "k \<noteq> ''__proto__''" "k \<noteq> ''constructor''" "k \<notin> set Object_prototype_functions"
    by (auto simp: Object_prototype_names_def Object_prototype_functions_def)
  from None have "k \<notin> fst ` set acc" by (simp add: map_of_eq_None_iff)
  with None k' d c show ?thesis
    by (simp add: assign_def increment_def all_counts_def sum_of_counts_def)
next
  case (Some v)
  from k have k': "k \<noteq> ''__proto__''" by (auto simp: Object_prototype_names_def)
  from Some have "(k, v) \<in> set acc" by (rule map_of_SomeD)
  with c obtain n where v: "v = Num n"
    by (cases v) (auto simp: all_counts_def list_all_iff)
  have inc: "increment acc k = Num (Suc n)" using Some v by (simp add: increment_def)
  have as: "assign acc k (Num (Suc n)) =
              map (\<lambda>(k', v'). if k' = k then (k', Num (Suc n)) else (k', v')) acc"
    using Some k' by (simp add: assign_def)
  let ?m = "map (\<lambda>(k', v'). if k' = k then (k', Num (Suc n)) else (k', v')) acc"
  have fst_same: "map fst ?m = map fst acc"
    by (induction acc) auto
  have d': "distinct (map fst ?m)" by (simp only: fst_same d)
  have c': "all_counts ?m"
    using c by (induction acc) (auto simp: all_counts_def split: if_splits)
  have s': "sum_of_counts ?m = sum_of_counts acc + 1"
    using Some v by (intro sum_of_counts_update[OF d]) simp
  show ?thesis unfolding inc as using d' c' s' by blast
qed

lemma reduce_counts:
  assumes "\<forall>v\<in>set vs. category v \<notin> set Object_prototype_names"
    and "distinct (map fst acc)" and "all_counts acc"
  shows "all_counts (foldl (\<lambda>acc v. assign acc (category v) (increment acc (category v))) acc vs)
         \<and> sum_of_counts (foldl (\<lambda>acc v. assign acc (category v) (increment acc (category v))) acc vs)
             = sum_of_counts acc + length vs"
  using assms
proof (induction vs arbitrary: acc)
  case Nil
  then show ?case by simp
next
  case (Cons v vs)
  from Cons.prems have k: "category v \<notin> set Object_prototype_names" by simp
  note s = step_counts[OF k Cons.prems(2,3)]
  from Cons.prems(1) have rest: "\<forall>v\<in>set vs. category v \<notin> set Object_prototype_names" by simp
  from Cons.IH[OF rest conjunct1[OF s] conjunct1[OF conjunct2[OF s]]] s
  show ?case by simp
qed

text \<open>
  The derivation is covering for every violation list none of whose categories is the name
  of a property of \<open>Object.prototype\<close>: every emitted value is a number and the numbers
  add up to the length of the list.
\<close>

lemma violations_by_category_covering:
  assumes "\<forall>v\<in>set vs. category v \<notin> set Object_prototype_names"
  shows "all_counts (getViolationsByCategory (Some \<lparr>roster = r, violations = Some vs\<rparr>)) \<and>
         sum_of_counts (getViolationsByCategory (Some \<lparr>roster = r, violations = Some vs\<rparr>))
           = length vs"
proof -
  have "distinct (map fst ([] :: (string \<times> tally) list))" "all_counts []"
    "sum_of_counts [] = 0"
    by (simp_all add: all_counts_def sum_of_counts_def)
  from reduce_counts[OF assms this(1,2)] this(3) show ?thesis
    by (simp add: getViolationsByCategory_def sum_of_counts_entries all_counts_entries)
qed

text \<open>
  No roster, no violation list and the empty violation list give the empty histogram.
\<close>

lemma violations_by_category_empty:
  "getViolationsByCategory None = []"
  "getViolationsByCategory (Some \<lparr>roster = r, violations = None\<rparr>) = []"
  "getViolationsByCategory (Some \<lparr>roster = r, violations = Some []\<rparr>) = []"
  by (simp_all add: getViolationsByCategory_def Object_entries_def)

lemma array_index_not_digits:
  "\<not> list_all (\<lambda>c. c \<in> set ''0123456789'') k \<Longrightarrow> \<not> is_array_index k"
  by (simp add: array_index_def is_array_index_def)

text \<open>
  The specification's scenario: \<open>Rest\<close>, \<open>Rest\<close>, \<open>DutyTime\<close>.
\<close>

lemma violations_by_category_scenario:
  "getViolationsByCategory
     (Some \<lparr>roster = None,
            violations = Some [violation_of ''Rest'', violation_of ''Rest'', violation_of ''DutyTime'']\<rparr>)
   = [(''Rest'', Num 2), (''DutyTime'', Num 1)]"
proof -
  have a: "\<not> is_array_index ''Rest''" "\<not> is_array_index ''DutyTime''"
    by (simp_all add: array_index_not_digits)
  show ?thesis
    by (simp add: getViolationsByCategory_def Object_entries_def assign_def increment_def
        violation_of_def Object_prototype_functions_def a)
qed

text \<open>
  C3. The counting misses the categories that \<open>Object.prototype\<close> defines. A single
  violation of category \<open>__proto__\<close> is read as the prototype object, the sum is the
  string \<open>[object Object]1\<close>, the inherited setter drops it: the histogram is empty and
  the counts add up to 0, not to 1.
\<close>

theorem violations_by_category_proto:
  "getViolationsByCategory (Some \<lparr>roster = None, violations = Some [violation_of ''__proto__'']\<rparr>) = []
   \<and> sum_of_counts
       (getViolationsByCategory (Some \<lparr>roster = None, violations = Some [violation_of ''__proto__'']\<rparr>))
     \<noteq> length [violation_of ''__proto__'']"
  by (simp add: getViolationsByCategory_def Object_entries_def assign_def increment_def
      violation_of_def sum_of_counts_def)

text \<open>
  For the other inherited names the value emitted is a string, not a count.
\<close>

lemma violations_by_category_constructor:
  "getViolationsByCategory (Some \<lparr>roster = None, violations = Some [violation_of ''constructor'']\<rparr>)
     = [(''constructor'', Text ''function Object() { [native code] }1'')]"
proof -
  have a: "\<not> is_array_index ''constructor''" by (simp add: array_index_not_digits)
  show ?thesis
    by (simp add: getViolationsByCategory_def Object_entries_def assign_def increment_def
        violation_of_def native_source_def a)
qed

section \<open>Properties of the crew details modal\<close>

lemma run_call_schedule:
  assumes "inv_stage call = AwaitSchedule"
  shows "run_call (Suc n) b call st =
           run_call n b (call\<lparr>inv_stage := AwaitPreferences\<rparr>)
             (st\<lparr>schedule := section_schedule (schedule_of b (inv_crewId call))\<rparr>)"
  using assms
  by (simp add: reply_def after_schedule_def section_schedule_def split: fetched.splits)

lemma run_call_preferences:
  assumes "inv_stage call = AwaitPreferences"
  shows "run_call (Suc n) b call st =
           run_call n b (call\<lparr>inv_stage := AwaitHistory\<rparr>)
             (st\<lparr>preferences := section_preferences (preferences_of b (inv_crewId call))\<rparr>)"
  using assms
  by (simp add: reply_def after_preferences_def section_preferences_def split: fetched.splits)

lemma after_detail_fields:
  assumes "after_detail picks r call st = (call', st')"
  shows "crewDetails st' = crewDetails st \<and> schedule st' = schedule st \<and>
         preferences st' = preferences st \<and> \<not> loading st' \<and> inv_stage call' = Done \<and>
         flightAssignments st' = flights_of_roster (inv_crewId call) r"
  using assms
  by (auto simp: after_detail_def finish_def flights_failed_def flights_of_roster_def Let_def
      split: fetched.splits option.splits sum.splits)

lemma run_call_Done: "inv_stage call = Done \<Longrightarrow> run_call n b call st = st"
  by (cases n) (simp_all add: reply_def)

lemma run_call_history:
  assumes "inv_stage call = AwaitHistory"
  shows "crewDetails (run_call (Suc (Suc n)) b call st) = crewDetails st \<and>
         schedule (run_call (Suc (Suc n)) b call st) = schedule st \<and>
         preferences (run_call (Suc (Suc n)) b call st) = preferences st \<and>
         \<not> loading (run_call (Suc (Suc n)) b call st) \<and>
         flightAssignments (run_call (Suc (Suc n)) b call st) =
           section_flights b (inv_crewId call) (flightAssignments st)"
proof (cases "\<exists>status h latest older.
                history b = Json status h \<and> rosters h = Some (latest # older)")
  case True
  then obtain status h latest older where
    h: "history b = Json status h" "rosters h = Some (latest # older)" by blast
  let ?call = "call\<lparr>inv_stage := AwaitDetail (item_id latest)\<rparr>"
  obtain call' st' where
    d: "after_detail (random_picks b) (roster_by_id b (item_id latest)) ?call st = (call', st')"
    by (cases "after_detail (random_picks b) (roster_by_id b (item_id latest)) ?call st")
  have "run_call (Suc (Suc n)) b call st = run_call n b call' st'"
    using assms h d by (simp add: reply_def after_history_def)
  also have "\<dots> = st'" using after_detail_fields[OF d] by (simp add: run_call_Done)
  finally show ?thesis
    using after_detail_fields[OF d] h by (simp add: section_flights_def)
next
  case False
  then have "after_history (history b) call st =
               finish call (case history b of Json status h \<Rightarrow> st | _ \<Rightarrow> flights_failed st)"
    by (cases "history b")
       (auto simp: after_history_def split: option.splits list.splits)
  moreover have "section_flights b (inv_crewId call) (flightAssignments st) =
     flightAssignments (case history b of Json status h \<Rightarrow> st | _ \<Rightarrow> flights_failed st)"
    using False
    by (cases "history b")
       (auto simp: section_flights_def flights_failed_def split: option.splits list.splits)
  ultimately show ?thesis
    using assms
    by (cases "history b")
       (simp_all add: reply_def finish_def run_call_Done flights_failed_def)
qed

text \<open>
  What a call of \<open>fetchCrewDetails\<close> leaves in the state when the crew list arrives and
  holds the selected crew member: the profile is set, \<open>loading\<close> is cleared, and each of
  the three sub-sections holds what the reply to its own request determines. For the
  schedule and the preferences that is the payload, or the empty list when there is none;
  for the flight assignments it is \<open>section_flights\<close>, which depends on the list shown
  before the call.
\<close>

lemma fetchCrewDetails_sections:
  assumes c: "c \<noteq> []"
    and crew: "crew_list b = Json status \<lparr>crew_members = Some members\<rparr>"
    and found: "find (\<lambda>m. Crew_ID m = Some c) members = Some crew"
  shows "crewDetails (fetchCrewDetails b (Some c) st) = Some crew \<and>
         \<not> loading (fetchCrewDetails b (Some c) st) \<and>
         schedule (fetchCrewDetails b (Some c) st) = section_schedule (schedule_of b c) \<and>
         preferences (fetchCrewDetails b (Some c) st) = section_preferences (preferences_of b c) \<and>
         flightAssignments (fetchCrewDetails b (Some c) st) =
           section_flights b c (flightAssignments st)"
proof -
  let ?call0 = "\<lparr>inv_crewId = c, inv_schedule = schedule st, inv_stage = AwaitCrew\<rparr>"
  let ?st1 = "st\<lparr>loading := True, crewDetails := Some crew\<rparr>"
  let ?st3 = "?st1\<lparr>schedule := section_schedule (schedule_of b c),
                     preferences := section_preferences (preferences_of b c)\<rparr>"
  have five: "(5::nat) = Suc (Suc (Suc (Suc (Suc 0))))" by simp
  have "fetchCrewDetails b (Some c) st =
          run_call (Suc (Suc (Suc (Suc (Suc 0))))) b ?call0 (st\<lparr>loading := True\<rparr>)"
    using c by (simp add: fetchCrewDetails_def fetchCrewDetails_start_def five)
  also have "\<dots> = run_call (Suc (Suc (Suc (Suc 0)))) b (?call0\<lparr>inv_stage := AwaitSchedule\<rparr>) ?st1"
    using crew found by (simp add: reply_def after_crew_def)
  also have "\<dots> = run_call (Suc (Suc (Suc 0))) b (?call0\<lparr>inv_stage := AwaitPreferences\<rparr>)
                      (?st1\<lparr>schedule := section_schedule (schedule_of b c)\<rparr>)"
    by (simp add: run_call_schedule del: run_call.simps)
  also have "\<dots> = run_call (Suc (Suc 0)) b (?call0\<lparr>inv_stage := AwaitHistory\<rparr>) ?st3"
    by (simp add: run_call_preferences del: run_call.simps)
  finally have eq: "fetchCrewDetails b (Some c) st =
      run_call (Suc (Suc 0)) b (?call0\<lparr>inv_stage := AwaitHistory\<rparr>) ?st3" .
  have "inv_stage (?call0\<lparr>inv_stage := AwaitHistory\<rparr>) = AwaitHistory" by simp
  from run_call_history[OF this, of 0 b ?st3] show ?thesis
    unfolding eq by simp
qed

text \<open>
  The values of the sections spelled out: a rejected request, a body that is not JSON and
  a \<open>null\<close> body give the empty list, a payload is shown as it is.
\<close>

lemma section_values:
  "section_schedule Fetch_rejected = []"
  "section_schedule (Body_not_json status) = []"
  "section_schedule (Json_null status) = []"
  "section_schedule (Json status \<lparr>schedules = Some l\<rparr>) = l"
  "section_preferences Fetch_rejected = []"
  "section_preferences (Body_not_json status) = []"
  "section_preferences (Json_null status) = []"
  "section_preferences (Json status \<lparr>preferences_json = Some p\<rparr>) = p"
  by (simp_all add: section_schedule_def section_preferences_def)

lemma section_flights_values:
  "history b = Fetch_rejected \<Longrightarrow> section_flights b c before = []"
  "history b = Body_not_json status \<Longrightarrow> section_flights b c before = []"
  "history b = Json_null status \<Longrightarrow> section_flights b c before = []"
  "history b = Json status \<lparr>rosters = Some (latest # older)\<rparr> \<Longrightarrow>
     roster_by_id b (item_id latest) = Body_not_json status' \<Longrightarrow>
     section_flights b c before = []"
  "history b = Json status \<lparr>rosters = Some (latest # older)\<rparr> \<Longrightarrow>
     roster_by_id b (item_id latest) = Json status' \<lparr>roster_data = Some flist\<rparr> \<Longrightarrow>
     filter_js (assigned_to c) flist = Inr fs \<Longrightarrow>
     section_flights b c before = fs"
  by (simp_all add: section_flights_def flights_of_roster_def)

text \<open>
  When the history reply lists no roster (an error object included), the call does not
  set the flight assignments: they stay what they were before the call.
\<close>

lemma flights_kept_without_roster:
  "history b = Json status \<lparr>rosters = None\<rparr> \<Longrightarrow> section_flights b c before = before"
  "history b = Json status \<lparr>rosters = Some []\<rparr> \<Longrightarrow> section_flights b c before = before"
  by (simp_all add: section_flights_def)

lemma roster_flights_CP001:
  "filter_js (assigned_to ''CP001'') [roster_6E101, roster_6E202] = Inr [roster_6E101]"
  by (simp add: assigned_to_def roster_6E101_def roster_6E202_def)

lemma roster_flights_PU001:
  "filter_js (assigned_to ''PU001'') [roster_6E101, roster_6E202] = Inr [roster_6E202]"
  by (simp add: assigned_to_def roster_6E101_def roster_6E202_def)

text \<open>
  The schedule endpoint answers 500 with a body that is not JSON; profile, preferences and
  flight assignments are populated.
\<close>

lemma fetchCrewDetails_schedule_down:
  "crewDetails (fetchCrewDetails backend_schedule_down (Some ''CP001'') initial_modal)
     = Some crew_DEL_Captain \<and>
   \<not> loading (fetchCrewDetails backend_schedule_down (Some ''CP001'') initial_modal) \<and>
   schedule (fetchCrewDetails backend_schedule_down (Some ''CP001'') initial_modal) = [] \<and>
   preferences (fetchCrewDetails backend_schedule_down (Some ''CP001'') initial_modal)
     = [preference_CP001] \<and>
   flightAssignments (fetchCrewDetails backend_schedule_down (Some ''CP001'') initial_modal)
     = [roster_6E101]"
proof -
  have c: "''CP001'' \<noteq> []" by simp
  have crew: "crew_list backend_schedule_down =
                Json 200 \<lparr>crew_members = Some [crew_BOM_Captain, crew_DEL_Captain]\<rparr>"
    by (simp add: backend_schedule_down_def)
  have found: "find (\<lambda>m. Crew_ID m = Some ''CP001'') [crew_BOM_Captain, crew_DEL_Captain]
                 = Some crew_DEL_Captain"
    by (simp add: crew_BOM_Captain_def crew_DEL_Captain_def)
  have s: "section_schedule (schedule_of backend_schedule_down ''CP001'') = []"
    by (simp add: backend_schedule_down_def section_schedule_def)
  have p: "section_preferences (preferences_of backend_schedule_down ''CP001'')
             = [preference_CP001]"
    by (simp add: backend_schedule_down_def section_preferences_def)
  have f: "section_flights backend_schedule_down ''CP001'' (flightAssignments initial_modal)
             = [roster_6E101]"
    by (simp add: backend_schedule_down_def section_flights_def flights_of_roster_def
        history_one_def roster_flights_CP001 del: filter_js.simps)
  from fetchCrewDetails_sections[OF c crew found, of initial_modal] s p f
  show ?thesis by simp
qed

text \<open>
  C1. A failed sub-fetch is to downgrade its own sub-section to empty. The schedule block
  and the preferences block do so for every failure (\<open>|| []\<close> and their \<open>catch\<close>), and
  the flight block does so in its \<open>catch\<close>; but when the roster history reply is JSON
  without rosters, the \<open>if\<close> of the flight block has no \<open>else\<close> and nothing is set.
  The modal is one component instance that stays mounted between selections: it shows the
  details of \<open>PU001\<close>, then \<open>CP001\<close> is selected while the history endpoint answers
  500 with an error object. The profile, schedule and preferences of \<open>CP001\<close> are
  shown, and the flight section still lists flight 6E202 of \<open>PU001\<close>, on which \<open>CP001\<close>
  is not assigned.
\<close>

theorem history_error_keeps_previous_flights:
  "fetchCrewDetails backend_up (Some ''PU001'') initial_modal = shown newer_loaded \<and>
   request_failed (history backend_history_down) \<and>
   fetchCrewDetails backend_history_down (Some ''CP001'') (shown newer_loaded) =
     (shown newer_loaded)\<lparr>crewDetails := Some crew_DEL_Captain, schedule := [schedule_CP001],
                            preferences := [preference_CP001]\<rparr> \<and>
   flightAssignments (fetchCrewDetails backend_history_down (Some ''CP001'') (shown newer_loaded))
     = [roster_6E202] \<and>
   filter_js (assigned_to ''CP001'') [roster_6E202] = Inr []"
  by code_simp

section \<open>Responses that resolve late\<close>

text \<open>
  In the trace the call for \<open>PU001\<close>, issued second, resolves first: after seven events
  the modal shows that crew member's data.
\<close>

lemma stale_trace_newer_first:
  "shown (modal_run (\<lambda>j. 0) (take 7 stale_trace) initial_system) =
     \<lparr>crewDetails = Some crew_DEL_Purser, schedule = [schedule_PU001],
      preferences = [preference_PU001], flightAssignments = [roster_6E202],
      violations_shown = [],
      latestRoster = Some \<lparr>roster_data = Some [roster_6E101, roster_6E202]\<rparr>,
      loading = False\<rparr>"
  by (simp add: modal_run_def stale_trace_def modal_step_def initial_system_def initial_modal_def
      fetchCrewDetails_start_def backend_up_def history_one_def after_crew_def
      after_schedule_def after_preferences_def after_history_def after_detail_def finish_def
      mockViolations_def roster_flights_PU001 crew_DEL_Captain_def crew_DEL_Purser_def
      del: filter_js.simps)

text \<open>
  C2 as stated fails: the call for \<open>CP001\<close> was issued first and resolves last. At the
  end \<open>PU001\<close> is selected and every section shows the data of \<open>CP001\<close>.
\<close>

theorem stale_response_overwrites_counterexample:
  "selected (modal_run (\<lambda>j. 0) stale_trace initial_system) = Some ''PU001'' \<and>
   shown (modal_run (\<lambda>j. 0) stale_trace initial_system) =
     \<lparr>crewDetails = Some crew_DEL_Captain, schedule = [schedule_CP001],
      preferences = [preference_CP001], flightAssignments = [roster_6E101],
      violations_shown = [],
      latestRoster = Some \<lparr>roster_data = Some [roster_6E101, roster_6E202]\<rparr>,
      loading = False\<rparr>"
  by (simp add: modal_run_def stale_trace_def modal_step_def initial_system_def initial_modal_def
      fetchCrewDetails_start_def backend_up_def history_one_def after_crew_def
      after_schedule_def after_preferences_def after_history_def after_detail_def finish_def
      mockViolations_def roster_flights_PU001 roster_flights_CP001 crew_DEL_Captain_def
      crew_DEL_Purser_def
      del: filter_js.simps)

lemma modal_step_Resolve:
  assumes "i < length (calls s)"
    and "resume picks r (calls s ! i) (shown s) = Some (call', st')"
  shows "shown (modal_step picks (Resolve i r) s) = st'"
  using assms by (simp add: modal_step_def)

text \<open>
  C2, amended. There is no stale-response discard: a response is applied when it
  resolves, in any state of the modal, whatever is selected then and whatever calls were
  started later. The profile, the schedule, the preferences and the flight assignments
  each take the value the resolving response determines, the step does not depend on the
  selection, and \<open>fetchFlights\<close> stores every reply in the same way, whatever the filter
  parameters are by then.
\<close>

theorem response_applied_when_it_resolves:
  assumes i: "i < length (calls s)"
  shows "(inv_stage (calls s ! i) = AwaitCrew \<and> crew_members d = Some ms \<and>
          find (\<lambda>m. Crew_ID m = Some (inv_crewId (calls s ! i))) ms = Some crew \<longrightarrow>
            crewDetails (shown (modal_step picks (Resolve i (CrewR (Json status d))) s))
              = Some crew) \<and>
         (inv_stage (calls s ! i) = AwaitSchedule \<longrightarrow>
            schedule (shown (modal_step picks (Resolve i (ScheduleR r1)) s))
              = section_schedule r1) \<and>
         (inv_stage (calls s ! i) = AwaitPreferences \<longrightarrow>
            preferences (shown (modal_step picks (Resolve i (PreferencesR r2)) s))
              = section_preferences r2) \<and>
         (inv_stage (calls s ! i) = AwaitDetail rosterId \<longrightarrow>
            flightAssignments (shown (modal_step picks (Resolve i (DetailR r3)) s))
              = flights_of_roster (inv_crewId (calls s ! i)) r3) \<and>
         modal_step picks (Resolve i r) (s\<lparr>selected := x\<rparr>)
           = (modal_step picks (Resolve i r) s)\<lparr>selected := x\<rparr> \<and>
         flights (fetchFlights_settled (Json status' fd) v)
           = (case flights_json fd of Some l \<Rightarrow> l | None \<Rightarrow> [])"
proof (intro conjI impI)
  assume "inv_stage (calls s ! i) = AwaitCrew \<and> crew_members d = Some ms \<and>
          find (\<lambda>m. Crew_ID m = Some (inv_crewId (calls s ! i))) ms = Some crew"
  then show "crewDetails (shown (modal_step picks (Resolve i (CrewR (Json status d))) s))
               = Some crew"
    using i by (simp add: modal_step_def after_crew_def)
next
  assume "inv_stage (calls s ! i) = AwaitSchedule"
  then show "schedule (shown (modal_step picks (Resolve i (ScheduleR r1)) s))
               = section_schedule r1"
    using i
    by (simp add: modal_step_def after_schedule_def section_schedule_def split: fetched.splits)
next
  assume "inv_stage (calls s ! i) = AwaitPreferences"
  then show "preferences (shown (modal_step picks (Resolve i (PreferencesR r2)) s))
               = section_preferences r2"
    using i
    by (simp add: modal_step_def after_preferences_def section_preferences_def
        split: fetched.splits)
next
  assume a: "inv_stage (calls s ! i) = AwaitDetail rosterId"
  obtain call' st' where d: "after_detail picks r3 (calls s ! i) (shown s) = (call', st')"
    by (cases "after_detail picks r3 (calls s ! i) (shown s)")
  with a have "resume picks (DetailR r3) (calls s ! i) (shown s) = Some (call', st')" by simp
  from modal_step_Resolve[OF i this] after_detail_fields[OF d]
  show "flightAssignments (shown (modal_step picks (Resolve i (DetailR r3)) s))
          = flights_of_roster (inv_crewId (calls s ! i)) r3"
    by simp
next
  show "modal_step picks (Resolve i r) (s\<lparr>selected := x\<rparr>)
          = (modal_step picks (Resolve i r) s)\<lparr>selected := x\<rparr>"
    by (simp add: modal_step_def split: option.splits prod.splits)
next
  show "flights (fetchFlights_settled (Json status' fd) v)
          = (case flights_json fd of Some l \<Rightarrow> l | None \<Rightarrow> [])"
    by (simp add: fetchFlights_settled_def)
qed

lemma newer_loaded_reached:
  "modal_run (\<lambda>j. 0) (take 7 stale_trace) initial_system = newer_loaded"
  by (simp add: modal_run_def stale_trace_def modal_step_def initial_system_def initial_modal_def
      fetchCrewDetails_start_def backend_up_def history_one_def after_crew_def
      after_schedule_def after_preferences_def after_history_def after_detail_def finish_def
      mockViolations_def roster_flights_PU001 crew_DEL_Captain_def crew_DEL_Purser_def
      newer_loaded_def
      del: filter_js.simps)

text \<open>
  In the trace, once the newer call has ended with \<open>PU001\<close> selected, the crew list of
  the older call resolves and the profile shown becomes that of \<open>CP001\<close>.
\<close>

theorem response_applied_when_it_resolves_witness:
  "crewDetails (shown (modal_step (\<lambda>j. 0)
      (Resolve 0 (CrewR (Json 200 \<lparr>crew_members = Some [crew_DEL_Captain, crew_DEL_Purser]\<rparr>)))
      newer_loaded)) = Some crew_DEL_Captain \<and>
   selected (modal_step (\<lambda>j. 0)
      (Resolve 0 (CrewR (Json 200 \<lparr>crew_members = Some [crew_DEL_Captain, crew_DEL_Purser]\<rparr>)))
      newer_loaded) = Some ''PU001''"
proof -
  have i: "0 < length (calls newer_loaded)" by (simp add: newer_loaded_def)
  have h: "inv_stage (calls newer_loaded ! 0) = AwaitCrew \<and>
           crew_members \<lparr>crew_members = Some [crew_DEL_Captain, crew_DEL_Purser]\<rparr>
             = Some [crew_DEL_Captain, crew_DEL_Purser] \<and>
           find (\<lambda>m. Crew_ID m = Some (inv_crewId (calls newer_loaded ! 0)))
             [crew_DEL_Captain, crew_DEL_Purser] = Some crew_DEL_Captain"
    by (simp add: newer_loaded_def crew_DEL_Captain_def)
  have sel: "selected (modal_step (\<lambda>j. 0)
      (Resolve 0 (CrewR (Json 200 \<lparr>crew_members = Some [crew_DEL_Captain, crew_DEL_Purser]\<rparr>)))
      newer_loaded) = Some ''PU001''"
    by (simp add: modal_step_def newer_loaded_def after_crew_def crew_DEL_Captain_def)
  from response_applied_when_it_resolves[OF i, of "\<lparr>crew_members = Some [crew_DEL_Captain, crew_DEL_Purser]\<rparr>" "[crew_DEL_Captain, crew_DEL_Purser]" crew_DEL_Captain "\<lambda>j. 0" 200] h sel
  show ?thesis by blast
qed

section \<open>Properties of the rounding of numbers\<close>

lemma bitlen_powi_bounds:
  assumes "0 < a"
  shows "(2::rat) powi (bitlen a - 1) \<le> of_int a" and "of_int a < (2::rat) powi (bitlen a)"
proof -
  from bitlen_bounds[OF assms] have b: "2 ^ nat (bitlen a - 1) \<le> a" "a < 2 ^ nat (bitlen a)"
    by simp_all
  have pos: "1 \<le> bitlen a" using assms bitlen_eq_zero_iff[of a] bitlen_nonneg[of a] by linarith
  have "(2::rat) powi (bitlen a - 1) = 2 ^ nat (bitlen a - 1)"
    using pos by (simp add: power_int_nonneg_exp)
  also have "\<dots> = of_int (2 ^ nat (bitlen a - 1))" by simp
  also have "\<dots> \<le> of_int a" using b(1) by (simp only: of_int_le_iff)
  finally show "(2::rat) powi (bitlen a - 1) \<le> of_int a" .
  have "of_int a < (of_int (2 ^ nat (bitlen a)) :: rat)" using b(2) by (simp only: of_int_less_iff)
  also have "\<dots> = 2 powi (bitlen a)"
    using pos by (simp add: power_int_nonneg_exp)
  finally show "of_int a < (2::rat) powi (bitlen a)" .
qed

text \<open>
  \<open>floor_log2\<close> is the binary exponent: a positive \<open>x\<close> lies in its binade.
\<close>

lemma floor_log2_bounds:
  assumes "0 < x"
  shows "2 powi (floor_log2 x) \<le> x" and "x < 2 powi (floor_log2 x + 1)"
proof -
  obtain a b where q: "quotient_of x = (a, b)" by (cases "quotient_of x")
  then have b: "0 < b" and x: "x = of_int a / of_int b"
    by (simp_all add: quotient_of_denom_pos quotient_of_div)
  from assms x b have a: "0 < a" by (simp add: zero_less_divide_iff)
  let ?e = "bitlen a - bitlen b"
  note A = bitlen_powi_bounds[OF a] and B = bitlen_powi_bounds[OF b]
  have bpos: "(0::rat) < of_int b" using b by simp
  have lower: "2 powi (?e - 1) \<le> x"
  proof -
    have "(2::rat) powi (?e - 1) * of_int b \<le> 2 powi (?e - 1) * 2 powi (bitlen b)"
      using B(2) by (intro mult_left_mono) simp_all
    also have "\<dots> = 2 powi (bitlen a - 1)"
      by (simp add: power_int_add[symmetric])
    also have "\<dots> \<le> of_int a" by (rule A(1))
    finally show ?thesis using bpos by (simp add: x pos_le_divide_eq)
  qed
  have upper: "x < 2 powi (?e + 1)"
  proof -
    have "of_int a < (2::rat) powi (bitlen a)" by (rule A(2))
    also have "\<dots> = 2 powi (?e + 1) * 2 powi (bitlen b - 1)"
      by (simp add: power_int_add[symmetric])
    also have "\<dots> \<le> 2 powi (?e + 1) * of_int b"
      using B(1) by (intro mult_left_mono) simp_all
    finally show ?thesis using bpos by (simp add: x pos_divide_less_eq)
  qed
  show "2 powi (floor_log2 x) \<le> x"
    using lower q by (simp add: floor_log2_def Let_def)
  show "x < 2 powi (floor_log2 x + 1)"
    using upper q by (auto simp: floor_log2_def Let_def not_le)
qed

lemma round_to_even_cases:
  "round_to_even y = \<lfloor>y\<rfloor> \<or> round_to_even y = \<lfloor>y\<rfloor> + 1"
  by (simp add: round_to_even_def Let_def)

lemma round_to_even_error: "\<bar>of_int (round_to_even y) - y\<bar> \<le> 1 / 2"
proof -
  define f where "f = \<lfloor>y\<rfloor>"
  have f: "of_int f \<le> y" "y < of_int f + 1" unfolding f_def by linarith+
  consider (lo) "y - of_int f < 1 / 2" | (hi) "1 / 2 < y - of_int f" | (tie) "y - of_int f = 1 / 2"
    by linarith
  then show ?thesis
  proof cases
    case lo
    then have "round_to_even y = f" by (simp add: round_to_even_def f_def)
    with lo f show ?thesis by simp
  next
    case hi
    then have "round_to_even y = f + 1" by (simp add: round_to_even_def f_def)
    with hi f show ?thesis by simp
  next
    case tie
    have "round_to_even y = f \<or> round_to_even y = f + 1"
      unfolding f_def by (rule round_to_even_cases)
    with tie show ?thesis by auto
  qed
qed

text \<open>
  \<open>round_to_even\<close> returns a nearest integer, and commutes with negation.
\<close>

lemma round_to_even_nearest: "\<bar>y - of_int (round_to_even y)\<bar> \<le> \<bar>y - of_int k\<bar>"
proof (cases "k = round_to_even y")
  case True
  then show ?thesis by simp
next
  case False
  then have "1 \<le> \<bar>k - round_to_even y\<bar>" by linarith
  then have "(1::rat) \<le> \<bar>of_int k - of_int (round_to_even y)\<bar>"
    by (metis of_int_1 of_int_abs of_int_diff of_int_le_iff)
  with round_to_even_error[of y] show ?thesis by linarith
qed

lemma round_to_even_of_int [simp]: "round_to_even (of_int k) = k"
  by (simp add: round_to_even_def)

lemma round_to_even_minus: "round_to_even (- y) = - round_to_even y"
proof (cases "y = of_int \<lfloor>y\<rfloor>")
  case True
  then have "round_to_even y = \<lfloor>y\<rfloor>" by (metis round_to_even_of_int)
  moreover from True have "- y = of_int (- \<lfloor>y\<rfloor>)" by simp
  then have "round_to_even (- y) = - \<lfloor>y\<rfloor>" by (metis round_to_even_of_int)
  ultimately show ?thesis by simp
next
  case False
  define f where "f = \<lfloor>y\<rfloor>"
  have f: "of_int f < y" "y < of_int f + 1"
    using False unfolding f_def by linarith+
  have fm: "\<lfloor>- y\<rfloor> = - f - 1"
    by (rule floor_unique) (use f in simp_all)
  consider (lo) "y - of_int f < 1 / 2" | (hi) "1 / 2 < y - of_int f" | (tie) "y - of_int f = 1 / 2"
    by linarith
  then show ?thesis
  proof cases
    case lo
    then have "round_to_even y = f" by (simp add: round_to_even_def f_def)
    moreover from lo have "round_to_even (- y) = - f"
      by (simp add: round_to_even_def fm Let_def)
    ultimately show ?thesis by simp
  next
    case hi
    then have "round_to_even y = f + 1" by (simp add: round_to_even_def f_def)
    moreover from hi have "round_to_even (- y) = - f - 1"
      by (simp add: round_to_even_def fm Let_def)
    ultimately show ?thesis by simp
  next
    case tie
    then have a: "round_to_even y = (if even f then f else f + 1)"
      by (simp add: round_to_even_def f_def)
    from tie have "- y - of_int (- f - 1) = 1 / 2" by simp
    then have b: "round_to_even (- y) = (if even (- f - 1) then - f - 1 else - f)"
      by (simp add: round_to_even_def fm Let_def)
    show ?thesis unfolding a b by simp
  qed
qed

lemma pow2_shift: "(2::rat) ^ n * 2 powi q = 2 powi (q + int n)"
  by (simp add: power_int_add)

lemma quantum_pos: "0 < quantum x"
  by (simp add: quantum_def zero_less_power_int)

lemma quantum_minus: "quantum (- x) = quantum x"
  by (simp add: quantum_def)

lemma quantum_bounds:
  assumes "x \<noteq> 0"
  shows "2 ^ 52 * quantum x \<le> \<bar>x\<bar>" and "\<bar>x\<bar> < 2 ^ 53 * quantum x"
proof -
  let ?e = "floor_log2 \<bar>x\<bar>"
  from assms have pos: "0 < \<bar>x\<bar>" by simp
  have "(2::rat) ^ 52 * quantum x = 2 powi (?e - 52 + int 52)"
    unfolding quantum_def by (rule pow2_shift)
  also have "?e - 52 + int 52 = ?e" by simp
  finally show "2 ^ 52 * quantum x \<le> \<bar>x\<bar>" using floor_log2_bounds(1)[OF pos] by simp
  have "(2::rat) ^ 53 * quantum x = 2 powi (?e - 52 + int 53)"
    unfolding quantum_def by (rule pow2_shift)
  also have "?e - 52 + int 53 = ?e + 1" by simp
  finally show "\<bar>x\<bar> < 2 ^ 53 * quantum x" using floor_log2_bounds(2)[OF pos] by simp
qed

lemma fl_0 [simp]: "fl 0 = 0"
  by (simp add: fl_def)

lemma fl_minus: "fl (- x) = - fl x"
  by (simp add: fl_def quantum_minus round_to_even_minus)

lemma mantissa_bounds:
  assumes "0 < x"
  shows "2 ^ 52 \<le> round_to_even (x / quantum x)" and "round_to_even (x / quantum x) \<le> 2 ^ 53"
proof -
  let ?t = "x / quantum x"
  from assms quantum_bounds[of x] quantum_pos[of x]
  have t: "2 ^ 52 \<le> ?t" "?t < 2 ^ 53"
    by (simp_all add: pos_le_divide_eq pos_divide_less_eq)
  have "of_int (2 ^ 52) \<le> ?t" using t(1) by simp
  then have lo: "2 ^ 52 \<le> \<lfloor>?t\<rfloor>" by (simp only: le_floor_iff)
  have "?t < of_int (2 ^ 53)" using t(2) by simp
  then have hi: "\<lfloor>?t\<rfloor> < 2 ^ 53" by (simp only: floor_less_iff)
  from round_to_even_cases[of ?t] lo show "2 ^ 52 \<le> round_to_even ?t" by auto
  from round_to_even_cases[of ?t] hi show "round_to_even ?t \<le> 2 ^ 53" by auto
qed

lemma fl_pos: "0 < x \<Longrightarrow> 0 < fl x"
  using mantissa_bounds(1)[of x] quantum_pos[of x]
  by (simp add: fl_def zero_less_mult_iff)

lemma fl_nonneg: "0 \<le> x \<Longrightarrow> 0 \<le> fl x"
  using fl_pos[of x] by (cases "x = 0") (simp_all add: less_le)

lemma fl_nonpos: "x \<le> 0 \<Longrightarrow> fl x \<le> 0"
  using fl_nonneg[of "- x"] by (simp add: fl_minus)

lemma representable_minus: "representable g \<Longrightarrow> representable (- g)"
  unfolding representable_def
proof (elim disjE exE conjE)
  assume "g = 0" then show "- g = 0 \<or> (\<exists>m q. 2 ^ 52 \<le> \<bar>m :: int\<bar> \<and> \<bar>m\<bar> < 2 ^ 53 \<and> - g = of_int m * 2 powi q)"
    by simp
next
  fix m q :: int
  assume "2 ^ 52 \<le> \<bar>m\<bar>" "\<bar>m\<bar> < 2 ^ 53" "g = of_int m * 2 powi q"
  then have "2 ^ 52 \<le> \<bar>- m\<bar> \<and> \<bar>- m\<bar> < 2 ^ 53 \<and> - g = of_int (- m) * 2 powi q" by simp
  then show "- g = 0 \<or> (\<exists>m q. 2 ^ 52 \<le> \<bar>m :: int\<bar> \<and> \<bar>m\<bar> < 2 ^ 53 \<and> - g = of_int m * 2 powi q)"
    by blast
qed

lemma fl_representable_pos:
  assumes "0 < x"
  shows "representable (fl x)"
proof -
  let ?k = "round_to_even (x / quantum x)"
  let ?q = "floor_log2 \<bar>x\<bar> - 52"
  have fx: "fl x = of_int ?k * 2 powi ?q" using assms by (simp add: fl_def quantum_def)
  note mb = mantissa_bounds[OF assms]
  show ?thesis
  proof (cases "?k < 2 ^ 53")
    case True
    with mb(1) have "2 ^ 52 \<le> \<bar>?k\<bar> \<and> \<bar>?k\<bar> < 2 ^ 53" by simp
    with fx show ?thesis unfolding representable_def by blast
  next
    case False
    with mb(2) have k: "?k = 2 ^ 53" by simp
    have "?q + int 53 = ?q + 1 + int 52" by simp
    then have "(2::rat) ^ 53 * 2 powi ?q = 2 ^ 52 * 2 powi (?q + 1)"
      unfolding pow2_shift by (simp only:)
    then have "fl x = of_int (2 ^ 52) * 2 powi (?q + 1)"
      unfolding fx k by simp
    moreover have "(2::int) ^ 52 \<le> \<bar>2 ^ 52\<bar> \<and> \<bar>(2::int) ^ 52\<bar> < 2 ^ 53" by simp
    ultimately show ?thesis unfolding representable_def by blast
  qed
qed

lemma fl_representable: "representable (fl x)"
proof -
  consider "x = 0" | "0 < x" | "x < 0" by linarith
  then show ?thesis
  proof cases
    case 1 then show ?thesis by (simp add: representable_def)
  next
    case 2 then show ?thesis by (rule fl_representable_pos)
  next
    case 3
    then have "representable (fl (- x))" by (intro fl_representable_pos) simp
    then have "representable (- fl (- x))" by (rule representable_minus)
    then show ?thesis by (simp add: fl_minus)
  qed
qed

lemma powi_less_imp_less: "(2::rat) powi a < 2 powi b \<Longrightarrow> a < b"
proof (rule ccontr)
  assume "(2::rat) powi a < 2 powi b" "\<not> a < b"
  then have "b \<le> a" by simp
  then have "(2::rat) powi b \<le> 2 powi a" by (intro power_int_increasing) simp_all
  with \<open>(2::rat) powi a < 2 powi b\<close> show False by simp
qed

text \<open>
  \<open>fl x\<close> is representable and no representable value is nearer to \<open>x\<close>.
\<close>

lemma fl_nearest_pos:
  assumes x: "0 < x" and g: "representable g"
  shows "\<bar>x - fl x\<bar> \<le> \<bar>x - g\<bar>"
proof -
  define q where "q = floor_log2 \<bar>x\<bar> - 52"
  define u where "u = quantum x"
  define t where "t = x / u"
  define k where "k = round_to_even t"
  have u: "0 < u" "u = 2 powi q" unfolding u_def q_def by (simp_all add: quantum_pos quantum_def)
  have xt: "x = t * u" using u(1) by (simp add: t_def)
  have fx: "fl x = of_int k * u" using x by (simp add: fl_def k_def t_def u_def)
  have lo: "2 ^ 52 * u \<le> x" using quantum_bounds(1)[of x] x by (simp add: u_def)
  have dist: "\<bar>x - of_int j * u\<bar> = \<bar>t - of_int j\<bar> * u" for j :: int
  proof -
    have "x - of_int j * u = (t - of_int j) * u" by (simp add: xt algebra_simps)
    then show ?thesis using u(1) by (simp add: abs_mult)
  qed
  have near: "\<bar>x - fl x\<bar> \<le> \<bar>x - of_int j * u\<bar>" for j :: int
    unfolding fx dist using round_to_even_nearest[of t j] u(1)
    by (simp add: k_def mult_right_mono)
  show ?thesis
  proof (cases "2 ^ 52 * u \<le> g")
    case True
    have "0 < (2::rat) ^ 52 * u" using u(1) by simp
    with True have gpos: "0 < g" by linarith
    with g obtain m p :: int where m: "2 ^ 52 \<le> \<bar>m\<bar>" "\<bar>m\<bar> < 2 ^ 53" and gm: "g = of_int m * 2 powi p"
      unfolding representable_def by auto
    have p2: "(0::rat) < 2 powi p" by (simp add: zero_less_power_int)
    from gpos gm p2 have mpos: "0 < m" by (simp add: zero_less_mult_iff)
    have "(2::rat) powi (q + int 52) = 2 ^ 52 * u" unfolding u(2) by (simp only: pow2_shift)
    also have "\<dots> \<le> g" by (rule True)
    also have "g < 2 ^ 53 * 2 powi p"
    proof -
      have "(of_int m :: rat) < of_int (2 ^ 53)" using m(2) mpos by (simp only: of_int_less_iff)
      then show ?thesis unfolding gm using p2 by (simp add: mult_strict_right_mono)
    qed
    also have "\<dots> = 2 powi (p + int 53)" by (simp only: pow2_shift)
    finally have "q + int 52 < p + int 53" by (rule powi_less_imp_less)
    then have qp: "q \<le> p" by simp
    define j where "j = m * 2 ^ nat (p - q)"
    have "(2::rat) powi p = 2 powi (q + (p - q))" by simp
    also have "\<dots> = 2 powi q * 2 powi (p - q)" by (rule power_int_add) simp
    also have "(2::rat) powi (p - q) = 2 ^ nat (p - q)" using qp by (simp add: power_int_nonneg_exp)
    finally have "g = of_int j * u" unfolding gm j_def u(2) by simp
    with near[of j] show ?thesis by simp
  next
    case False
    then have "g < 2 ^ 52 * u" by simp
    with lo have "\<bar>x - of_int (2 ^ 52) * u\<bar> \<le> \<bar>x - g\<bar>" by simp
    with near[of "2 ^ 52"] show ?thesis by linarith
  qed
qed

lemma fl_nearest:
  assumes "representable g"
  shows "\<bar>x - fl x\<bar> \<le> \<bar>x - g\<bar>"
proof -
  consider "x = 0" | "0 < x" | "x < 0" by linarith
  then show ?thesis
  proof cases
    case 1 then show ?thesis by simp
  next
    case 2 then show ?thesis using assms by (rule fl_nearest_pos)
  next
    case 3
    then have "0 < - x" by simp
    from fl_nearest_pos[OF this representable_minus[OF assms]]
    show ?thesis by (simp add: fl_minus)
  qed
qed

text \<open>
  Rounding is monotone, exact on representable values (the integers up to \<open>2^53\<close> among
  them), and its relative error is at most \<open>2^-53\<close>.
\<close>

lemma fl_mono:
  assumes "x \<le> y"
  shows "fl x \<le> fl y"
proof (rule ccontr)
  assume "\<not> fl x \<le> fl y"
  then have lt: "fl y < fl x" by simp
  from fl_nearest[OF fl_representable, of x y] have a: "\<bar>x - fl x\<bar> \<le> \<bar>x - fl y\<bar>" .
  from fl_nearest[OF fl_representable, of y x] have b: "\<bar>y - fl y\<bar> \<le> \<bar>y - fl x\<bar>" .
  from a lt have "fl x + fl y \<le> 2 * x" by linarith
  moreover from b lt have "2 * y \<le> fl x + fl y" by linarith
  ultimately have "x = y" using assms by linarith
  with lt show False by simp
qed

lemma fl_exact: "representable g \<Longrightarrow> fl g = g"
  using fl_nearest[of g g] by simp

lemma fl_error: "\<bar>fl x - x\<bar> \<le> \<bar>x\<bar> / 2 ^ 53"
proof (cases "x = 0")
  case True
  then show ?thesis by simp
next
  case False
  define u where "u = quantum x"
  have u: "0 < u" unfolding u_def by (rule quantum_pos)
  have "fl x - x = (of_int (round_to_even (x / u)) - x / u) * u"
    using False u by (simp add: fl_def u_def algebra_simps)
  then have "\<bar>fl x - x\<bar> = \<bar>of_int (round_to_even (x / u)) - x / u\<bar> * u"
    using u by (simp add: abs_mult)
  also have "\<dots> \<le> 1 / 2 * u"
    using round_to_even_error[of "x / u"] u by (intro mult_right_mono) simp_all
  also have "\<dots> \<le> \<bar>x\<bar> / 2 ^ 53"
    using quantum_bounds(1)[OF False] by (simp add: u_def)
  finally show ?thesis .
qed

lemma representable_int:
  assumes "\<bar>n\<bar> \<le> 2 ^ 53"
  shows "representable (of_int n)"
proof -
  consider (zero) "n = 0" | (top) "\<bar>n\<bar> = 2 ^ 53" | (mid) "n \<noteq> 0" "\<bar>n\<bar> < 2 ^ 53"
    using assms by linarith
  then show ?thesis
  proof cases
    case zero
    then show ?thesis by (simp add: representable_def)
  next
    case top
    define m :: int where "m = (if 0 < n then 2 ^ 52 else - (2 ^ 52))"
    have n: "n = m * 2" using top by (auto simp: m_def abs_if split: if_splits)
    have "2 ^ 52 \<le> \<bar>m\<bar> \<and> \<bar>m\<bar> < 2 ^ 53 \<and> (of_int n :: rat) = of_int m * 2 powi 1"
      unfolding n by (simp add: m_def)
    then show ?thesis unfolding representable_def by blast
  next
    case mid
    define a where "a = \<bar>n\<bar>"
    have a: "0 < a" "a < 2 ^ 53" using mid by (simp_all add: a_def)
    define l where "l = bitlen a"
    from bitlen_bounds[OF a(1)] have b: "2 ^ nat (l - 1) \<le> a" "a < 2 ^ nat l"
      by (simp_all add: l_def)
    have l1: "1 \<le> l" using a(1) bitlen_eq_zero_iff[of a] bitlen_nonneg[of a]
      unfolding l_def by linarith
    have "(2::int) ^ nat (l - 1) < 2 ^ 53" using b(1) a(2) by linarith
    then have "nat (l - 1) < 53" by (simp only: power_strict_increasing_iff)
    then have l53: "l \<le> 53" by simp
    define s where "s = nat (53 - l)"
    define m where "m = n * 2 ^ s"
    have am: "\<bar>m\<bar> = a * 2 ^ s" by (simp add: m_def a_def abs_mult)
    have e1: "nat (l - 1) + s = 52" using l1 l53 by (simp add: s_def)
    have e2: "nat l + s = 53" using l1 l53 by (simp add: s_def)
    have "(2::int) ^ 52 = 2 ^ nat (l - 1) * 2 ^ s" by (simp only: power_add[symmetric] e1)
    also have "\<dots> \<le> a * 2 ^ s" using b(1) by (intro mult_right_mono) simp_all
    finally have lo: "2 ^ 52 \<le> \<bar>m\<bar>" by (simp only: am)
    have "a * 2 ^ s < 2 ^ nat l * (2::int) ^ s" using b(2) by (intro mult_strict_right_mono) simp_all
    also have "\<dots> = 2 ^ 53" by (simp only: power_add[symmetric] e2)
    finally have hi: "\<bar>m\<bar> < 2 ^ 53" by (simp only: am)
    have "(of_int m :: rat) * 2 powi (- int s) = of_int n * (2 ^ s * 2 powi (- int s))"
      by (simp add: m_def)
    also have "(2::rat) ^ s * 2 powi (- int s) = 2 powi (- int s + int s)"
      by (rule pow2_shift)
    finally have "(of_int n :: rat) = of_int m * 2 powi (- int s)" by simp
    with lo hi show ?thesis unfolding representable_def by blast
  qed
qed

lemma fl_of_int: "\<bar>n\<bar> \<le> 2 ^ 53 \<Longrightarrow> fl (of_int n) = of_int n"
  by (rule fl_exact) (rule representable_int)

text \<open>
  Rounding keeps the magnitude within a factor of two, and the model gives the known
  binary64 value of one tenth.
\<close>

lemma fl_abs: "fl \<bar>x\<bar> = \<bar>fl x\<bar>"
proof (cases "0 \<le> x")
  case True
  then show ?thesis using fl_nonneg[of x] by simp
next
  case False
  then have "x \<le> 0" by simp
  from fl_nonpos[OF this] False show ?thesis by (simp add: fl_minus abs_if)
qed

lemma fl_abs_bounds: "\<bar>x\<bar> / 2 \<le> \<bar>fl x\<bar>" "\<bar>fl x\<bar> \<le> 2 * \<bar>x\<bar>"
proof -
  have "\<bar>x\<bar> / 2 ^ 53 \<le> \<bar>x\<bar> / 2" by (intro divide_left_mono) simp_all
  with fl_error[of x] have e: "\<bar>fl x - x\<bar> \<le> \<bar>x\<bar> / 2" by linarith
  from e show "\<bar>x\<bar> / 2 \<le> \<bar>fl x\<bar>" by linarith
  from e show "\<bar>fl x\<bar> \<le> 2 * \<bar>x\<bar>" by linarith
qed

lemma fl_one_tenth: "fl (1 / 10) = 3602879701896397 / 36028797018963968"
  by code_simp

section \<open>Properties of the duty hours\<close>

text \<open>
  For two valid time values the hours are \<open>Math.round\<close> of \<open>scaled\<close>, divided by 100.
\<close>

lemma hours_between_Finite:
  "hours_between (Finite (of_int s)) (Finite (of_int e)) =
     Finite (fl (of_int \<lfloor>scaled (e - s) + 1 / 2\<rfloor> / 100))"
  by (simp add: hours_between_def js_div_def js_sub_def js_mul_def Math_round_def scaled_def)

lemma scaled_mono: "d \<le> d' \<Longrightarrow> scaled d \<le> scaled d'"
  unfolding scaled_def
  by (intro fl_mono mult_right_mono divide_right_mono) simp_all

lemma scaled_0: "scaled 0 = 0"
  by (simp add: scaled_def)

text \<open>
  The threshold: 18000 ms scale to exactly one half, 17999 ms to less.
\<close>

lemma scaled_18000: "scaled 18000 = 1 / 2"
  unfolding scaled_def by code_simp

lemma scaled_17999: "scaled 17999 < 1 / 2"
  unfolding scaled_def by code_simp

lemma rounded_zero:
  assumes "0 \<le> d" "d < 18000"
  shows "\<lfloor>scaled d + 1 / 2\<rfloor> = 0"
proof -
  from assms have "scaled 0 \<le> scaled d" "scaled d \<le> scaled 17999"
    by (simp_all add: scaled_mono)
  with scaled_0 scaled_17999 have "0 \<le> scaled d + 1 / 2" "scaled d + 1 / 2 < 1" by linarith+
  then show ?thesis by (simp add: floor_unique)
qed

lemma rounded_pos:
  assumes "18000 \<le> d"
  shows "1 \<le> \<lfloor>scaled d + 1 / 2\<rfloor>"
proof -
  from assms have "scaled 18000 \<le> scaled d" by (rule scaled_mono)
  with scaled_18000 have "of_int 1 \<le> scaled d + 1 / 2" by simp
  then show ?thesis by (simp only: le_floor_iff)
qed

lemma rounded_nonneg: "0 \<le> d \<Longrightarrow> 0 \<le> \<lfloor>scaled d + 1 / 2\<rfloor>"
  using rounded_zero[of d] rounded_pos[of d] by (cases "d < 18000") simp_all

lemma scaled_nonpos: "d \<le> 0 \<Longrightarrow> scaled d \<le> 0"
  using scaled_mono[of d 0] by (simp add: scaled_0)

lemma rounded_nonpos: "d < 0 \<Longrightarrow> \<lfloor>scaled d + 1 / 2\<rfloor> \<le> 0"
proof -
  assume "d < 0"
  then have "scaled d \<le> 0" by (intro scaled_nonpos) simp
  then have "scaled d + 1 / 2 < of_int 1" by simp
  then have "\<lfloor>scaled d + 1 / 2\<rfloor> < 1" by (simp only: floor_less_iff)
  then show ?thesis by simp
qed

text \<open>
  Up to \<open>2^50\<close> ms the scaled value is within \<open>1/72000\<close> of the exact quotient, so
  \<open>Math.round\<close> meets the exact rounding except at a tie.
\<close>

lemma scaled_error:
  assumes "\<bar>d\<bar> \<le> 2 ^ 50"
  shows "\<bar>scaled d - of_int d / 36000\<bar> < 1 / 72000"
proof -
  define x :: rat where "x = of_int d"
  define h where "h = fl (x / 3600000)"
  define y where "y = fl (h * 100)"
  define a where "a = \<bar>x\<bar> / 3600000"
  have "\<bar>d\<bar> \<le> 2 ^ 53" using assms by simp
  then have fx: "fl (of_int d) = x" unfolding x_def by (rule fl_of_int)
  have sc: "scaled d = y" by (simp add: scaled_def fx y_def h_def)
  have "(of_int \<bar>d\<bar> :: rat) \<le> of_int (2 ^ 50)" using assms by (simp only: of_int_le_iff)
  then have xb: "\<bar>x\<bar> \<le> 1125899906842624" by (simp add: x_def)
  have a0: "0 \<le> a" by (simp add: a_def)
  have ab: "a \<le> 1125899906842624 / 3600000" unfolding a_def using xb by simp
  have "\<bar>h - x / 3600000\<bar> \<le> \<bar>x / 3600000\<bar> / 2 ^ 53"
    unfolding h_def by (rule fl_error)
  then have eh: "\<bar>h - x / 3600000\<bar> \<le> a / 9007199254740992" by (simp add: a_def)
  have "\<bar>x / 3600000\<bar> = a" by (simp add: a_def)
  with eh have hb: "\<bar>h\<bar> \<le> a + a / 9007199254740992" by linarith
  have "\<bar>y - h * 100\<bar> \<le> \<bar>h * 100\<bar> / 2 ^ 53"
    unfolding y_def by (rule fl_error)
  moreover have "\<bar>h * 100\<bar> = 100 * \<bar>h\<bar>" by (simp add: abs_mult)
  ultimately have ey: "\<bar>y - h * 100\<bar> \<le> 100 * \<bar>h\<bar> / 9007199254740992" by simp
  have split: "y - x / 36000 = (y - h * 100) + 100 * (h - x / 3600000)" by simp
  have "\<bar>y - x / 36000\<bar> \<le> \<bar>y - h * 100\<bar> + \<bar>100 * (h - x / 3600000)\<bar>"
    unfolding split by (rule abs_triangle_ineq)
  moreover have "\<bar>100 * (h - x / 3600000)\<bar> = 100 * \<bar>h - x / 3600000\<bar>"
    by (simp only: abs_mult abs_numeral)
  ultimately have "\<bar>y - x / 36000\<bar> \<le> \<bar>y - h * 100\<bar> + 100 * \<bar>h - x / 3600000\<bar>"
    by simp
  with ey eh hb ab a0 have "\<bar>y - x / 36000\<bar> < 1 / 72000" by linarith
  then show ?thesis unfolding sc x_def .
qed

lemma rounded_exact:
  assumes d: "\<bar>d\<bar> \<le> 2 ^ 50" and tie: "(d + 18000) mod 36000 \<noteq> 0"
  shows "\<lfloor>scaled d + 1 / 2\<rfloor> = (d + 18000) div 36000"
proof (rule floor_unique)
  define k where "k = (d + 18000) div 36000"
  define r where "r = (d + 18000) mod 36000"
  have "0 \<le> r" "r < 36000" unfolding r_def by simp_all
  with tie have r: "1 \<le> r" "r \<le> 35999" unfolding r_def by linarith+
  have "d + 18000 = 36000 * k + r" by (simp add: k_def r_def)
  then have "(of_int (d + 18000) :: rat) = of_int (36000 * k + r)" by (simp only:)
  then have z: "(of_int d :: rat) / 36000 + 1 / 2 = of_int k + of_int r / 36000" by simp
  have "(of_int 1 :: rat) \<le> of_int r" "(of_int r :: rat) \<le> of_int 35999"
    using r by (simp_all only: of_int_le_iff)
  then have rb: "(1 :: rat) / 36000 \<le> of_int r / 36000" "(of_int r :: rat) / 36000 \<le> 35999 / 36000"
    by simp_all
  from scaled_error[OF d] z rb
  show "of_int ((d + 18000) div 36000) \<le> scaled d + 1 / 2"
    and "scaled d + 1 / 2 < of_int ((d + 18000) div 36000) + 1"
    unfolding k_def[symmetric] by linarith+
qed

lemma round2_eq: "round2 (of_int d / 3600000) = of_int ((d + 18000) div 36000) / 100"
proof -
  have "(of_int d :: rat) / 3600000 * 100 + 1 / 2 = of_int (d + 18000) / of_int 36000"
    by simp
  then have "\<lfloor>(of_int d :: rat) / 3600000 * 100 + 1 / 2\<rfloor> = (d + 18000) div 36000"
    by (simp only: floor_divide_of_int_eq)
  then show ?thesis by (simp add: round2_def)
qed

text \<open>
  The hours between two valid time values: zero for equal values, of the sign of the
  difference, positive exactly from 18000 ms on, and equal to the exact two-decimal
  rounding (as a binary64 number) when the difference is no tie.
\<close>

lemma hours_between_properties:
  "\<exists>h. hours_between (Finite (of_int s)) (Finite (of_int e)) = Finite h \<and>
       (e = s \<longrightarrow> h = 0) \<and>
       (s \<le> e \<longrightarrow> 0 \<le> h) \<and>
       (e < s \<longrightarrow> h \<le> 0) \<and>
       (s < e \<longrightarrow> (0 < h \<longleftrightarrow> 18000 \<le> e - s)) \<and>
       (\<bar>e - s\<bar> \<le> 2 ^ 50 \<and> (e - s + 18000) mod 36000 \<noteq> 0 \<longrightarrow>
          h = fl (round2 (of_int (e - s) / 3600000)))"
proof -
  define n where "n = \<lfloor>scaled (e - s) + 1 / 2\<rfloor>"
  define h where "h = fl (of_int n / 100)"
  have hb: "hours_between (Finite (of_int s)) (Finite (of_int e)) = Finite h"
    by (simp add: hours_between_Finite h_def n_def)
  have eq: "e = s \<longrightarrow> h = 0"
  proof
    assume "e = s"
    then have "n = 0" unfolding n_def using rounded_zero[of 0] by simp
    then show "h = 0" by (simp add: h_def)
  qed
  have nonneg: "s \<le> e \<longrightarrow> 0 \<le> h"
  proof
    assume "s \<le> e"
    then have "0 \<le> n" unfolding n_def by (intro rounded_nonneg) simp
    then show "0 \<le> h" unfolding h_def by (intro fl_nonneg) simp
  qed
  have nonpos: "e < s \<longrightarrow> h \<le> 0"
  proof
    assume "e < s"
    then have "n \<le> 0" unfolding n_def by (intro rounded_nonpos) simp
    then show "h \<le> 0" unfolding h_def by (intro fl_nonpos) (simp add: divide_le_0_iff)
  qed
  have pos: "s < e \<longrightarrow> (0 < h \<longleftrightarrow> 18000 \<le> e - s)"
  proof
    assume se: "s < e"
    show "0 < h \<longleftrightarrow> 18000 \<le> e - s"
    proof (cases "18000 \<le> e - s")
      case True
      then have "1 \<le> n" unfolding n_def by (rule rounded_pos)
      then have "0 < h" unfolding h_def by (intro fl_pos) simp
      with True show ?thesis by simp
    next
      case False
      with se have "n = 0" unfolding n_def by (intro rounded_zero) simp_all
      then have "h = 0" by (simp add: h_def)
      with False show ?thesis by simp
    qed
  qed
  have exact: "\<bar>e - s\<bar> \<le> 2 ^ 50 \<and> (e - s + 18000) mod 36000 \<noteq> 0 \<longrightarrow>
          h = fl (round2 (of_int (e - s) / 3600000))"
  proof
    assume a: "\<bar>e - s\<bar> \<le> 2 ^ 50 \<and> (e - s + 18000) mod 36000 \<noteq> 0"
    then have "n = (e - s + 18000) div 36000"
      unfolding n_def by (intro rounded_exact) simp_all
    then show "h = fl (round2 (of_int (e - s) / 3600000))"
      unfolding h_def by (simp only: round2_eq)
  qed
  show ?thesis
    by (intro exI[of _ h] conjI) (fact hb eq nonneg nonpos pos exact)+
qed

text \<open>
  At a tie the two can differ: one hour and 18 seconds give 1, the exact rounding 1.01.
\<close>

lemma hours_between_tie:
  "hours_between (Finite 0) (Finite 3618000) = Finite 1"
  "round2 (3618000 / 3600000) = 101 / 100"
  unfolding hours_between_def js_div_def js_sub_def js_mul_def Math_round_def round2_def
  by code_simp+

lemma hours_between_ten_seconds:
  "hours_between (Finite 1696154400000) (Finite 1696154410000) = Finite 0"
  unfolding hours_between_def js_div_def js_sub_def js_mul_def Math_round_def
  by code_simp

lemma hours_between_NaN:
  "hours_between NaN b = NaN" "hours_between a NaN = NaN"
  by (simp_all add: hours_between_def js_div_def js_sub_def js_mul_def Math_round_def
      split: js_number.splits)

text \<open>
  Every number the duty hours are computed from is zero or lies in the normal range of
  binary64, where rounding to 53 bits is what the hardware does: the difference of two valid
  time values is at most \<open>1.728e16\<close> ms.
\<close>

lemma moderate_normal_range:
  assumes "moderate v"
  shows "v = 0 \<or> (2 powi (- 1022) \<le> \<bar>v\<bar> \<and> \<bar>v\<bar> < 2 powi 1024)"
proof -
  have lo: "(2::rat) powi (- 1022) \<le> 1 / 10 ^ 8"
  proof -
    have "(10::rat) ^ 8 \<le> 2 ^ 1022" by simp
    then have "1 / (2::rat) ^ 1022 \<le> 1 / 10 ^ 8" by (intro divide_left_mono) simp_all
    then show ?thesis by (simp add: power_int_minus_divide)
  qed
  have hi: "(10::rat) ^ 17 < 2 powi 1024" by simp
  from assms lo hi show ?thesis unfolding moderate_def by linarith
qed

lemma duty_numbers_moderate:
  assumes "\<bar>d\<bar> \<le> 17280000000000000"
  shows "moderate (of_int d)"
    and "moderate (fl (of_int d) / 3600000)"
    and "moderate (fl (fl (of_int d) / 3600000) * 100)"
    and "moderate (of_int \<lfloor>scaled d + 1 / 2\<rfloor> / 100)"
proof -
  define x where "x = fl (of_int d)"
  define h where "h = fl (x / 3600000)"
  define y where "y = fl (h * 100)"
  define n where "n = \<lfloor>y + 1 / 2\<rfloor>"
  have sc: "scaled d = y" by (simp add: scaled_def y_def h_def x_def)
  have "(of_int \<bar>d\<bar> :: rat) \<le> of_int 17280000000000000"
    using assms by (simp only: of_int_le_iff)
  then have dhi: "\<bar>of_int d :: rat\<bar> \<le> 17280000000000000" by simp
  have dlo: "d \<noteq> 0 \<Longrightarrow> 1 \<le> \<bar>of_int d :: rat\<bar>"
  proof -
    assume "d \<noteq> 0"
    then have "1 \<le> \<bar>d\<bar>" by simp
    then have "(of_int 1 :: rat) \<le> of_int \<bar>d\<bar>" by (simp only: of_int_le_iff)
    then show ?thesis by simp
  qed
  show m1: "moderate (of_int d)"
    using dhi dlo unfolding moderate_def by (cases "d = 0") simp_all
  have x0: "d = 0 \<Longrightarrow> x = 0" by (simp add: x_def)
  have xlo: "d \<noteq> 0 \<Longrightarrow> 1 / 2 \<le> \<bar>x\<bar>"
    using dlo fl_abs_bounds(1)[of "of_int d"] unfolding x_def by linarith
  have xhi: "\<bar>x\<bar> \<le> 34560000000000000"
    using dhi fl_abs_bounds(2)[of "of_int d"] unfolding x_def by linarith
  have qa: "\<bar>x / 3600000\<bar> = \<bar>x\<bar> / 3600000" by simp
  show m2: "moderate (fl (of_int d) / 3600000)"
    unfolding x_def[symmetric] moderate_def qa using x0 xlo xhi
    by (cases "d = 0") simp_all
  have h0: "d = 0 \<Longrightarrow> h = 0" by (simp add: h_def x0)
  have hlo: "d \<noteq> 0 \<Longrightarrow> 1 / 14400000 \<le> \<bar>h\<bar>"
    using xlo fl_abs_bounds(1)[of "x / 3600000"] qa unfolding h_def by linarith
  have hhi: "\<bar>h\<bar> \<le> 19200000000"
    using xhi fl_abs_bounds(2)[of "x / 3600000"] qa unfolding h_def by linarith
  have ma: "\<bar>h * 100\<bar> = \<bar>h\<bar> * 100" by (simp add: abs_mult)
  show m3: "moderate (fl (fl (of_int d) / 3600000) * 100)"
    unfolding x_def[symmetric] h_def[symmetric] moderate_def ma using h0 hlo hhi
    by (cases "d = 0") simp_all
  have yhi: "\<bar>y\<bar> \<le> 3840000000000"
    using hhi fl_abs_bounds(2)[of "h * 100"] ma unfolding y_def by linarith
  have "of_int n \<le> y + 1 / 2" "y + 1 / 2 < of_int n + 1" unfolding n_def by linarith+
  with yhi have nhi: "\<bar>of_int n :: rat\<bar> \<le> 3840000000001" by linarith
  have nlo: "n \<noteq> 0 \<Longrightarrow> 1 \<le> \<bar>of_int n :: rat\<bar>"
  proof -
    assume "n \<noteq> 0"
    then have "1 \<le> \<bar>n\<bar>" by simp
    then have "(of_int 1 :: rat) \<le> of_int \<bar>n\<bar>" by (simp only: of_int_le_iff)
    then show ?thesis by simp
  qed
  have na: "\<bar>of_int n / 100 :: rat\<bar> = \<bar>of_int n\<bar> / 100" by simp
  show "moderate (of_int \<lfloor>scaled d + 1 / 2\<rfloor> / 100)"
    unfolding sc n_def[symmetric] moderate_def na using nhi nlo
    by (cases "n = 0") simp_all
qed

section \<open>Properties of the duty hours of the roster\<close>

text \<open>
  The derived list holds one entry for each of the first ten flights, in order; an entry
  whose time strings do not parse has \<open>NaN\<close> hours.
\<close>

lemma getDutyHoursData_nth:
  assumes "i < length fls" "i < 10"
  shows "getDutyHoursData parse (Some \<lparr>roster = Some fls, violations = v\<rparr>) ! i =
           \<lparr>flight = Flight_Number_FD (fls ! i),
            hours = hours_between (Date_getTime parse (Duty_Start (fls ! i)))
                      (Date_getTime parse (Duty_End (fls ! i))),
            route = Origin_FD (fls ! i) @ ''-'' @ Destination_FD (fls ! i)\<rparr>"
  using assms by (simp add: getDutyHoursData_def)

lemma getDutyHoursData_length:
  "length (getDutyHoursData parse (Some \<lparr>roster = Some fls, violations = v\<rparr>)) =
     min (length fls) 10"
  by (simp add: getDutyHoursData_def)

lemma getDutyHoursData_invalid_date:
  assumes "i < length fls" "i < 10"
    and "parse (Duty_Start (fls ! i)) = None \<or> parse (Duty_End (fls ! i)) = None"
  shows "hours (getDutyHoursData parse (Some \<lparr>roster = Some fls, violations = v\<rparr>) ! i) = NaN"
  using assms(3)
  by (auto simp: getDutyHoursData_nth[OF assms(1,2)] Date_getTime_def hours_between_NaN)

text \<open>
  C4, amended. For each of the first ten flights, with both time strings valid: the hours
  are a finite number, zero when the two time values are equal, not negative when the duty
  starts before it ends (not positive when it ends before it starts), strictly positive
  exactly when the duty lasts 18000 ms or more, and equal to the duration in hours rounded
  to two decimal places (as the nearest binary64 number) whenever the difference is at most
  \<open>2^50\<close> ms and is not a rounding tie.
\<close>

theorem duty_hours_of_emitted_flights:
  assumes i: "i < length fls" "i < 10"
    and s: "parse (Duty_Start (fls ! i)) = Some s" "\<bar>s\<bar> \<le> 8640000000000000"
    and e: "parse (Duty_End (fls ! i)) = Some e" "\<bar>e\<bar> \<le> 8640000000000000"
  shows "\<exists>h. hours (getDutyHoursData parse (Some \<lparr>roster = Some fls, violations = v\<rparr>) ! i)
               = Finite h \<and>
             (e = s \<longrightarrow> h = 0) \<and>
             (s \<le> e \<longrightarrow> 0 \<le> h) \<and>
             (e < s \<longrightarrow> h \<le> 0) \<and>
             (s < e \<longrightarrow> (0 < h \<longleftrightarrow> 18000 \<le> e - s)) \<and>
             (\<bar>e - s\<bar> \<le> 2 ^ 50 \<and> (e - s + 18000) mod 36000 \<noteq> 0 \<longrightarrow>
                h = fl (round2 (of_int (e - s) / 3600000)))"
proof -
  have "hours (getDutyHoursData parse (Some \<lparr>roster = Some fls, violations = v\<rparr>) ! i) =
          hours_between (Finite (of_int s)) (Finite (of_int e))"
    using s e by (simp add: getDutyHoursData_nth[OF i] Date_getTime_def)
  with hours_between_properties[of s e] show ?thesis by simp
qed

lemma sample_dates_values:
  "sample_dates ''2023-10-01T05:00:00Z'' = Some 1696136400000"
  "sample_dates ''2023-10-01T08:40:00Z'' = Some 1696149600000"
  "sample_dates ''2023-10-01T10:00:00Z'' = Some 1696154400000"
  "sample_dates ''2023-10-01T10:00:10Z'' = Some 1696154410000"
  by (simp_all add: sample_dates_def)

text \<open>
  The flight 6E101 of the sample roster: its duty lasts 3 h 40 min, which is no tie.
\<close>

theorem duty_hours_of_emitted_flights_witness:
  "\<exists>h. hours (getDutyHoursData sample_dates
               (Some \<lparr>roster = Some [roster_6E101], violations = None\<rparr>) ! 0) = Finite h \<and>
        0 < h \<and> h = fl (round2 (of_int (1696149600000 - 1696136400000) / 3600000))"
proof -
  have i: "0 < length [roster_6E101]" "(0::nat) < 10" by simp_all
  have s: "sample_dates (Duty_Start ([roster_6E101] ! 0)) = Some 1696136400000"
    "\<bar>1696136400000 :: int\<bar> \<le> 8640000000000000"
    by (simp_all add: roster_6E101_def sample_dates_values)
  have e: "sample_dates (Duty_End ([roster_6E101] ! 0)) = Some 1696149600000"
    "\<bar>1696149600000 :: int\<bar> \<le> 8640000000000000"
    by (simp_all add: roster_6E101_def sample_dates_values)
  have c: "(1696136400000 :: int) < 1696149600000"
    "(18000 :: int) \<le> 1696149600000 - 1696136400000"
    "\<bar>1696149600000 - 1696136400000 :: int\<bar> \<le> 2 ^ 50"
    "(1696149600000 - 1696136400000 + 18000 :: int) mod 36000 \<noteq> 0"
    by simp_all
  from duty_hours_of_emitted_flights[OF i s e, of None] c show ?thesis by blast
qed

text \<open>
  A duty of 3 h 40 min is shown as 3.67 hours.
\<close>

lemma duty_hours_6E101:
  "map hours (getDutyHoursData sample_dates (Some \<lparr>roster = Some [roster_6E101], violations = None\<rparr>))
     = [hours_between (Finite 1696136400000) (Finite 1696149600000)]"
  "hours_between (Finite 1696136400000) (Finite 1696149600000) = Finite (fl (367 / 100))"
proof -
  show "map hours (getDutyHoursData sample_dates
          (Some \<lparr>roster = Some [roster_6E101], violations = None\<rparr>))
     = [hours_between (Finite 1696136400000) (Finite 1696149600000)]"
    by (simp add: getDutyHoursData_def Date_getTime_def roster_6E101_def sample_dates_values)
  show "hours_between (Finite 1696136400000) (Finite 1696149600000) = Finite (fl (367 / 100))"
    unfolding hours_between_def js_div_def js_sub_def js_mul_def Math_round_def
    by code_simp
qed

text \<open>
  C4 as stated fails: a duty that starts ten seconds before it ends has 0 hours, which is
  not strictly positive.
\<close>

theorem duty_hours_ten_seconds_counterexample:
  "sample_dates (Duty_Start short_duty) = Some 1696154400000 \<and>
   sample_dates (Duty_End short_duty) = Some 1696154410000 \<and>
   (1696154400000 :: int) < 1696154410000 \<and>
   map hours (getDutyHoursData sample_dates (Some \<lparr>roster = Some [short_duty], violations = None\<rparr>))
     = [Finite 0]"
  by (simp add: getDutyHoursData_def Date_getTime_def short_duty_def sample_dates_values
      hours_between_ten_seconds)

end
